theory Spec2Isabelle
  imports Main "HOL-Library.Word"
begin

section \<open>Buffers, hex text and string slicing\<close>

text \<open>
  A Node \<open>Buffer\<close> is a list of bytes. A JavaScript string is represented by the list of
  its UTF-8 bytes (an Isabelle \<open>string\<close>), so \<open>Buffer.from(s, 'utf8')\<close> and
  \<open>buf.toString('utf8')\<close> only change the element type.
\<close>

type_synonym buffer = "8 word list"

definition utf8_bytes :: "string \<Rightarrow> buffer" where
  "utf8_bytes s = map (\<lambda>c. word_of_nat (of_char c)) s"

definition utf8_string :: "buffer \<Rightarrow> string" where
  "utf8_string b = map (\<lambda>w. char_of (unat w)) b"

text \<open>\<open>buf.toString('hex')\<close>: two lower-case hexadecimal digits for every byte.\<close>

definition hex_digit :: "nat \<Rightarrow> char" where
  "hex_digit n = ''0123456789abcdef'' ! n"

definition hex_of_byte :: "8 word \<Rightarrow> string" where
  "hex_of_byte w = [hex_digit (unat w div 16), hex_digit (unat w mod 16)]"

definition to_hex :: "buffer \<Rightarrow> string" where
  "to_hex b = concat (map hex_of_byte b)"

text \<open>
  \<open>Buffer.from(s, 'hex')\<close>: reads pairs of hexadecimal digits (either case) and stops at
  the first pair that is not hexadecimal; a trailing single character is dropped.
\<close>

definition hex_val :: "char \<Rightarrow> nat option" where
  "hex_val c =
     (let n = (of_char c :: nat) in
      if 48 \<le> n \<and> n \<le> 57 then Some (n - 48)
      else if 97 \<le> n \<and> n \<le> 102 then Some (n - 87)
      else if 65 \<le> n \<and> n \<le> 70 then Some (n - 55)
      else None)"

fun from_hex :: "string \<Rightarrow> buffer" where
  "from_hex (a # b # rest) =
     (case (hex_val a, hex_val b) of
        (Some x, Some y) \<Rightarrow> word_of_nat (16 * x + y) # from_hex rest
      | _ \<Rightarrow> [])"
| "from_hex _ = []"

text \<open>
  \<open>String.prototype.slice(start, end)\<close>: a negative index counts from the end of the
  string, both indices are clamped to the string, and an omitted \<open>end\<close> (here \<open>stop = None\<close>) is the length.
\<close>

definition js_index :: "nat \<Rightarrow> int \<Rightarrow> nat" where
  "js_index len i = (if i < 0 then nat (max (int len + i) 0) else min (nat i) len)"

definition js_slice :: "string \<Rightarrow> int \<Rightarrow> int option \<Rightarrow> string" where
  "js_slice s start stop =
     (let len = length s;
          from = js_index len start;
          to = (case stop of None \<Rightarrow> len | Some e \<Rightarrow> js_index len e)
      in take (to - from) (drop from s))"


section \<open>CryptoManager\<close>

text \<open>
  Errors are values. Every \<open>throw new Error(...)\<close> of the source has its own constructor;
  errors raised by the runtime are \<open>SystemError\<close> (a file-system error with its
  \<open>code\<close>), \<open>SyntaxError\<close> (\<open>JSON.parse\<close>), \<open>TypeError\<close>, \<open>CryptoError\<close>
  (\<open>crypto\<close>) and \<open>FetchError\<close> (\<open>fetch\<close>).
\<close>

datatype js_error =
    SystemError string
  | SyntaxError
  | TypeError
  | CryptoError
  | FetchError
  | FailedToLoadTokens js_error
  | FailedToClearTokens js_error
  | NoPKCEChallenge
  | TokenExchangeFailed nat string
  | NoRefreshToken
  | TokenRefreshFailed nat string
  | CallbackServerNotStarted
  | OAuthCallbackTimeout
  | OAuthError string string
  | NoAuthorizationCode
  | RefreshFailedReauth
  | NoTokensAvailable

text \<open>The \<open>code\<close> property of an error object; only system errors carry an errno code.\<close>

fun error_code :: "js_error \<Rightarrow> string option" where
  "error_code (SystemError c) = Some c"
| "error_code _ = None"

record EncryptedData =
  data :: string
  iv :: string
  salt :: string

definition KEY_LENGTH :: nat where "KEY_LENGTH = 32"
definition IV_LENGTH :: nat where "IV_LENGTH = 16"
definition SALT_LENGTH :: nat where "SALT_LENGTH = 32"
definition TAG_LENGTH :: nat where "TAG_LENGTH = 16"

text \<open>
  The runtime's \<open>crypto\<close> module is not part of the repository; it is a parameter.
  \<open>gcm_seal key iv aad plaintext\<close> stands for \<open>createCipheriv('aes-256-gcm', key, iv)\<close>,
  \<open>setAAD\<close>, \<open>update\<close>, \<open>final\<close> and \<open>getAuthTag\<close>: the ciphertext and the tag, or
  \<open>None\<close> when the module throws. \<open>gcm_open key iv aad ciphertext tag\<close> stands for
  \<open>createDecipheriv\<close>, \<open>setAAD\<close>, \<open>setAuthTag\<close>, \<open>update\<close> and \<open>final\<close>: the
  plaintext, or \<open>None\<close> when the module throws (the tag does not verify, among others).
  \<open>pbkdf2 password salt iterations keylen\<close> stands for \<open>pbkdf2Sync\<close> with SHA-256,
  \<open>base64url\<close> for \<open>buf.toString('base64url')\<close> and \<open>sha256_base64url\<close> for
  \<open>createHash('sha256').update(input).digest('base64url')\<close>.
\<close>

record crypto_module =
  gcm_seal :: "buffer \<Rightarrow> buffer \<Rightarrow> buffer \<Rightarrow> buffer \<Rightarrow> (buffer \<times> buffer) option"
  gcm_open :: "buffer \<Rightarrow> buffer \<Rightarrow> buffer \<Rightarrow> buffer \<Rightarrow> buffer \<Rightarrow> buffer option"
  pbkdf2 :: "string \<Rightarrow> buffer \<Rightarrow> nat \<Rightarrow> nat \<Rightarrow> buffer"
  base64url :: "buffer \<Rightarrow> string"
  sha256_base64url :: "string \<Rightarrow> string"

text \<open>
  What is assumed of AES-256-GCM: with a 256-bit key, a 128-bit IV and 256 bits of
  additional data, sealing succeeds, the tag has 128 bits, and opening what was sealed
  under the same key, IV and additional data gives the plaintext back.
\<close>

definition gcm_correct :: "crypto_module \<Rightarrow> bool" where
  "gcm_correct cm \<longleftrightarrow>
     (\<forall>key ivb aad p.
        length key = KEY_LENGTH \<and> length ivb = IV_LENGTH \<and> length aad = SALT_LENGTH \<longrightarrow>
        (\<exists>ct tag. gcm_seal cm key ivb aad p = Some (ct, tag) \<and> length tag = TAG_LENGTH \<and>
                  gcm_open cm key ivb aad ct tag = Some p))"

definition deriveKey :: "crypto_module \<Rightarrow> string \<Rightarrow> buffer \<Rightarrow> nat \<Rightarrow> buffer" where
  "deriveKey cm password saltb iterations = pbkdf2 cm password saltb iterations KEY_LENGTH"

text \<open>
  \<open>encrypt\<close>: the two \<open>crypto.randomBytes\<close> draws are the arguments \<open>ivb\<close> (16 bytes)
  and \<open>saltb\<close> (32 bytes).
\<close>

definition encrypt :: "crypto_module \<Rightarrow> buffer \<Rightarrow> buffer \<Rightarrow> string \<Rightarrow> buffer \<Rightarrow> js_error + EncryptedData" where
  "encrypt cm ivb saltb plain key =
     (case gcm_seal cm key ivb saltb (utf8_bytes plain) of
        None \<Rightarrow> Inl CryptoError
      | Some (encrypted, authTag) \<Rightarrow>
          Inr \<lparr>data = to_hex encrypted @ to_hex authTag, iv = to_hex ivb, salt = to_hex saltb\<rparr>)"

definition decrypt :: "crypto_module \<Rightarrow> EncryptedData \<Rightarrow> buffer \<Rightarrow> js_error + string" where
  "decrypt cm encryptedData key =
     (let ivb = from_hex (iv encryptedData);
          saltb = from_hex (salt encryptedData);
          encryptedText = js_slice (data encryptedData) 0 (Some (- int (TAG_LENGTH * 2)));
          authTag = from_hex (js_slice (data encryptedData) (- int (TAG_LENGTH * 2)) None)
      in case gcm_open cm key ivb saltb (from_hex encryptedText) authTag of
           None \<Rightarrow> Inl CryptoError
         | Some decrypted \<Rightarrow> Inr (utf8_string decrypted))"


text \<open>\<open>generateRandomString\<close>: \<open>rb\<close> is the draw \<open>crypto.randomBytes(length)\<close>.\<close>

definition generateRandomString :: "crypto_module \<Rightarrow> buffer \<Rightarrow> nat \<Rightarrow> string" where
  "generateRandomString cm rb len = js_slice (base64url cm rb) 0 (Some (int len))"

definition generateSHA256Hash :: "crypto_module \<Rightarrow> string \<Rightarrow> string" where
  "generateSHA256Hash cm input = sha256_base64url cm input"


section \<open>Token records and the runtime\<close>

record TokenSet =
  access_token :: string
  refresh_token :: "string option"
  expires_in :: "int option"
  token_type :: "string option"
  scope :: "string option"
  expires_at :: "int option"

text \<open>
  JavaScript truthiness of an optional field: \<open>undefined\<close>, the number \<open>0\<close> and the
  empty string are falsy. Numbers of seconds are integers here.
\<close>

fun truthy_num :: "int option \<Rightarrow> bool" where
  "truthy_num None = False"
| "truthy_num (Some n) = (n \<noteq> 0)"

fun truthy_str :: "string option \<Rightarrow> bool" where
  "truthy_str None = False"
| "truthy_str (Some s) = (s \<noteq> [])"

text \<open>
  \<open>JSON.parse\<close> and \<open>JSON.stringify\<close> belong to the runtime and are parameters, at the
  two types the store uses them at. \<open>JSON.parse(fileContent)\<close> either throws a
  \<open>SyntaxError\<close> (\<open>NotJSON\<close>), or gives a value without the three string fields of an
  envelope (\<open>WrongShape\<close>: \<open>decrypt\<close> then throws a \<open>TypeError\<close> on it), or gives an
  envelope. \<open>JSON.parse(decryptedData) as TokenSet\<close> is typed by the source's cast.
\<close>

datatype 'a parsed = NotJSON | WrongShape | Parsed 'a

record json_module =
  stringify_tokens :: "TokenSet \<Rightarrow> string"
  parse_tokens :: "string \<Rightarrow> TokenSet option"
  stringify_envelope :: "EncryptedData \<Rightarrow> string"
  parse_envelope :: "string \<Rightarrow> EncryptedData parsed"

record os_module =
  hostname :: string
  username :: string
  homedir :: string

text \<open>
  \<open>encode_params\<close> stands for \<open>new URLSearchParams({...}).toString()\<close>; \<open>show_nat\<close> is the
  decimal text of a number in a template literal.
\<close>

record runtime =
  crypto :: crypto_module
  json :: json_module
  os :: os_module
  encode_params :: "(string \<times> string) list \<Rightarrow> string"

fun show_nat :: "nat \<Rightarrow> string" where
  "show_nat n =
     (if n < 10 then [''0123456789'' ! n]
      else show_nat (n div 10) @ [''0123456789'' ! (n mod 10)])"

declare show_nat.simps [simp del]


section \<open>The file system\<close>

text \<open>
  A path names a file (contents and mode), a directory (mode) or nothing. \<open>fault\<close> is the
  environment's reason to fail an operation on a path that exists (permissions, a full
  disk, ...); a missing path fails with \<open>ENOENT\<close>, and only a missing path does.
\<close>

datatype node = File string nat | Dir nat

datatype fs_op = OpAccess | OpMkdir | OpWriteFile | OpChmod | OpReadFile | OpUnlink

datatype errno = EACCES | EIO | EISDIR | ENOSPC | EPERM | EROFS | EMFILE

fun errno_code :: "errno \<Rightarrow> string" where
  "errno_code EACCES = ''EACCES''"
| "errno_code EIO = ''EIO''"
| "errno_code EISDIR = ''EISDIR''"
| "errno_code ENOSPC = ''ENOSPC''"
| "errno_code EPERM = ''EPERM''"
| "errno_code EROFS = ''EROFS''"
| "errno_code EMFILE = ''EMFILE''"

record filesystem =
  entries :: "string \<rightharpoonup> node"
  fault :: "fs_op \<Rightarrow> string \<Rightarrow> errno option"

definition fs_access :: "filesystem \<Rightarrow> string \<Rightarrow> js_error + unit" where
  "fs_access fs p =
     (case entries fs p of
        None \<Rightarrow> Inl (SystemError ''ENOENT'')
      | Some _ \<Rightarrow> (case fault fs OpAccess p of
                    Some e \<Rightarrow> Inl (SystemError (errno_code e))
                  | None \<Rightarrow> Inr ()))"

text \<open>\<open>fs.mkdir(p, {recursive: true, mode})\<close>: no error when the directory is there.\<close>

definition fs_mkdir :: "filesystem \<Rightarrow> string \<Rightarrow> nat \<Rightarrow> js_error + filesystem" where
  "fs_mkdir fs p mode =
     (case fault fs OpMkdir p of
        Some e \<Rightarrow> Inl (SystemError (errno_code e))
      | None \<Rightarrow> (case entries fs p of
                    None \<Rightarrow> Inr (fs\<lparr>entries := (entries fs)(p \<mapsto> Dir mode)\<rparr>)
                  | Some (Dir _) \<Rightarrow> Inr fs
                  | Some (File _ _) \<Rightarrow> Inl (SystemError ''EEXIST'')))"

text \<open>\<open>fs.writeFile(p, content, {mode})\<close>: the mode is used when the file is created.\<close>

definition fs_writeFile :: "filesystem \<Rightarrow> string \<Rightarrow> string \<Rightarrow> nat \<Rightarrow> js_error + filesystem" where
  "fs_writeFile fs p content mode =
     (case fault fs OpWriteFile p of
        Some e \<Rightarrow> Inl (SystemError (errno_code e))
      | None \<Rightarrow> (case entries fs p of
                    None \<Rightarrow> Inr (fs\<lparr>entries := (entries fs)(p \<mapsto> File content mode)\<rparr>)
                  | Some (File _ m) \<Rightarrow> Inr (fs\<lparr>entries := (entries fs)(p \<mapsto> File content m)\<rparr>)
                  | Some (Dir _) \<Rightarrow> Inl (SystemError ''EISDIR'')))"

definition fs_chmod :: "filesystem \<Rightarrow> string \<Rightarrow> nat \<Rightarrow> js_error + filesystem" where
  "fs_chmod fs p mode =
     (case entries fs p of
        None \<Rightarrow> Inl (SystemError ''ENOENT'')
      | Some n \<Rightarrow> (case fault fs OpChmod p of
                    Some e \<Rightarrow> Inl (SystemError (errno_code e))
                  | None \<Rightarrow> Inr (fs\<lparr>entries := (entries fs)(p \<mapsto>
                              (case n of File c _ \<Rightarrow> File c mode | Dir _ \<Rightarrow> Dir mode))\<rparr>)))"

definition fs_readFile :: "filesystem \<Rightarrow> string \<Rightarrow> js_error + string" where
  "fs_readFile fs p =
     (case entries fs p of
        None \<Rightarrow> Inl (SystemError ''ENOENT'')
      | Some (Dir _) \<Rightarrow> Inl (SystemError ''EISDIR'')
      | Some (File c _) \<Rightarrow> (case fault fs OpReadFile p of
                             Some e \<Rightarrow> Inl (SystemError (errno_code e))
                           | None \<Rightarrow> Inr c))"

definition fs_unlink :: "filesystem \<Rightarrow> string \<Rightarrow> js_error + filesystem" where
  "fs_unlink fs p =
     (case entries fs p of
        None \<Rightarrow> Inl (SystemError ''ENOENT'')
      | Some (Dir _) \<Rightarrow> Inl (SystemError ''EISDIR'')
      | Some (File _ _) \<Rightarrow> (case fault fs OpUnlink p of
                             Some e \<Rightarrow> Inl (SystemError (errno_code e))
                           | None \<Rightarrow> Inr (fs\<lparr>entries := (entries fs)(p := None)\<rparr>)))"


section \<open>TokenStorage\<close>

record TokenStorage =
  tokenFilePath :: string
  configDir :: string
  encryptionKey :: "buffer option"

text \<open>\<open>path.join(dir, name)\<close> for the two joins of the constructor.\<close>

definition path_join :: "string \<Rightarrow> string \<Rightarrow> string" where
  "path_join dir name = dir @ ''/'' @ name"

definition new_TokenStorage :: "runtime \<Rightarrow> string option \<Rightarrow> TokenStorage" where
  "new_TokenStorage rt tokenFilePath_arg =
     (let cd = path_join (homedir (os rt)) ''.google-tasks-mcp''
      in \<lparr>tokenFilePath = (if truthy_str tokenFilePath_arg then the tokenFilePath_arg
                            else path_join cd ''tokens.enc''),
          configDir = cd,
          encryptionKey = None\<rparr>)"

text \<open>The octal literals \<open>0o700\<close> (owner read, write, execute) and \<open>0o600\<close> (owner read, write).\<close>

definition mode_0o700 :: nat where "mode_0o700 = 7 * 64"
definition mode_0o600 :: nat where "mode_0o600 = 6 * 64"

definition getEncryptionKey :: "runtime \<Rightarrow> TokenStorage \<Rightarrow> buffer \<times> TokenStorage" where
  "getEncryptionKey rt st =
     (case encryptionKey st of
        Some k \<Rightarrow> (k, st)
      | None \<Rightarrow>
          (let machineInfo = hostname (os rt) @ ''-'' @ username (os rt);
               saltb = utf8_bytes ''google-tasks-mcp-salt'';
               k = deriveKey (crypto rt) machineInfo saltb 100000
           in (k, st\<lparr>encryptionKey := Some k\<rparr>)))"

definition ensureConfigDir :: "TokenStorage \<Rightarrow> filesystem \<Rightarrow> js_error + filesystem" where
  "ensureConfigDir st fs =
     (case fs_access fs (configDir st) of
        Inr _ \<Rightarrow> Inr fs
      | Inl _ \<Rightarrow> fs_mkdir fs (configDir st) mode_0o700)"

definition setSecurePermissions :: "filesystem \<Rightarrow> string \<Rightarrow> filesystem" where
  "setSecurePermissions fs filePath =
     (case fs_chmod fs filePath mode_0o600 of
        Inr fs' \<Rightarrow> fs'
      | Inl _ \<Rightarrow> fs)"

text \<open>
  Methods return their outcome together with the store object and the file system as
  they are left, also when they throw. \<open>ivb\<close> and \<open>saltb\<close> are the random draws of
  \<open>encrypt\<close>.
\<close>

definition saveTokens ::
  "runtime \<Rightarrow> buffer \<Rightarrow> buffer \<Rightarrow> TokenStorage \<Rightarrow> filesystem \<Rightarrow> TokenSet
     \<Rightarrow> (js_error + unit) \<times> TokenStorage \<times> filesystem" where
  "saveTokens rt ivb saltb st fs tokens =
     (case ensureConfigDir st fs of
        Inl e \<Rightarrow> (Inl e, st, fs)
      | Inr fs1 \<Rightarrow>
          (let (key, st1) = getEncryptionKey rt st;
               tokenData = stringify_tokens (json rt) tokens
           in case encrypt (crypto rt) ivb saltb tokenData key of
                Inl e \<Rightarrow> (Inl e, st1, fs1)
              | Inr encrypted \<Rightarrow>
                  (let fileContent = stringify_envelope (json rt) encrypted
                   in case fs_writeFile fs1 (tokenFilePath st1) fileContent mode_0o600 of
                        Inl e \<Rightarrow> (Inl e, st1, fs1)
                      | Inr fs2 \<Rightarrow> (Inr (), st1, setSecurePermissions fs2 (tokenFilePath st1)))))"

text \<open>The body of the \<open>try\<close> block of \<open>loadTokens\<close>.\<close>

definition loadTokens_try ::
  "runtime \<Rightarrow> TokenStorage \<Rightarrow> filesystem \<Rightarrow> (js_error + TokenSet) \<times> TokenStorage" where
  "loadTokens_try rt st fs =
     (case fs_readFile fs (tokenFilePath st) of
        Inl e \<Rightarrow> (Inl e, st)
      | Inr fileContent \<Rightarrow>
          (case parse_envelope (json rt) fileContent of
             NotJSON \<Rightarrow> (Inl SyntaxError, st)
           | WrongShape \<Rightarrow> (Inl TypeError, snd (getEncryptionKey rt st))
           | Parsed encrypted \<Rightarrow>
               (let (key, st1) = getEncryptionKey rt st
                in case decrypt (crypto rt) encrypted key of
                     Inl e \<Rightarrow> (Inl e, st1)
                   | Inr decryptedData \<Rightarrow>
                       (case parse_tokens (json rt) decryptedData of
                          None \<Rightarrow> (Inl SyntaxError, st1)
                        | Some t \<Rightarrow> (Inr t, st1)))))"

text \<open>\<open>loadTokens\<close>: the \<open>catch\<close> turns \<open>ENOENT\<close> into \<open>null\<close> and wraps everything else.\<close>

definition loadTokens ::
  "runtime \<Rightarrow> TokenStorage \<Rightarrow> filesystem \<Rightarrow> (js_error + TokenSet option) \<times> TokenStorage" where
  "loadTokens rt st fs =
     (case loadTokens_try rt st fs of
        (Inr t, st1) \<Rightarrow> (Inr (Some t), st1)
      | (Inl e, st1) \<Rightarrow>
          (if error_code e = Some ''ENOENT'' then (Inr None, st1)
           else (Inl (FailedToLoadTokens e), st1)))"

definition clearTokens :: "TokenStorage \<Rightarrow> filesystem \<Rightarrow> (js_error + unit) \<times> filesystem" where
  "clearTokens st fs =
     (case fs_unlink fs (tokenFilePath st) of
        Inr fs1 \<Rightarrow> (Inr (), fs1)
      | Inl e \<Rightarrow>
          (if error_code e \<noteq> Some ''ENOENT'' then (Inl (FailedToClearTokens e), fs)
           else (Inr (), fs)))"

definition hasTokens :: "TokenStorage \<Rightarrow> filesystem \<Rightarrow> bool" where
  "hasTokens st fs = (case fs_access fs (tokenFilePath st) of Inr _ \<Rightarrow> True | Inl _ \<Rightarrow> False)"

text \<open>
  \<open>date_now\<close> is the value of \<open>Date.now()\<close>, in milliseconds; \<open>Math.floor(Date.now() / 1000)\<close>
  is \<open>date_now div 1000\<close>.
\<close>

definition isTokenExpired :: "int \<Rightarrow> TokenSet \<Rightarrow> bool" where
  "isTokenExpired date_now tokens =
     (if \<not> truthy_num (expires_at tokens) then False
      else (let now = date_now div 1000; buffer = 300
            in the (expires_at tokens) \<le> now + buffer))"

definition updateTokenExpiry :: "int \<Rightarrow> TokenSet \<Rightarrow> TokenSet" where
  "updateTokenExpiry date_now tokens =
     (if truthy_num (expires_in tokens)
      then tokens\<lparr>expires_at := Some (date_now div 1000 + the (expires_in tokens))\<rparr>
      else tokens)"


section \<open>OAuthManager\<close>

text \<open>The field \<open>method\<close> of the source is \<open>pkce_method\<close> here.\<close>

record PKCEChallenge =
  verifier :: string
  challenge :: string
  pkce_method :: string

record OAuthConfig =
  clientId :: string
  redirectUri :: string
  scopes :: "string list"

text \<open>An \<open>http.Server\<close> object: the port it listens on, if it listens.\<close>

record http_server =
  bound_port :: "nat option"

record OAuthManager =
  config :: OAuthConfig
  tokenStorage :: TokenStorage
  currentPKCE :: "PKCEChallenge option"
  callbackServer :: "http_server option"
  callbackPort :: nat

text \<open>
  What is outside the process. \<open>fetch url body\<close> is the token endpoint: the call throws
  (\<open>FetchFailed\<close>), or answers with a status, the body as text, and the body as parsed by
  \<open>response.json() as TokenSet\<close> (\<open>None\<close> when it is not JSON). \<open>listeners\<close> are the ports
  this process listens on, and \<open>port_error p\<close> is the error code the system gives to
  \<open>listen\<close> on a port \<open>p\<close> that this process does not hold (\<open>None\<close>: the port is free).
\<close>

datatype fetch_result = FetchFailed | Response nat string "TokenSet option"

record world =
  files :: filesystem
  fetch :: "string \<Rightarrow> string \<Rightarrow> fetch_result"
  listeners :: "nat set"
  port_error :: "nat \<Rightarrow> string option"

definition response_ok :: "nat \<Rightarrow> bool" where
  "response_ok status \<longleftrightarrow> 200 \<le> status \<and> status \<le> 299"

definition new_OAuthManager :: "runtime \<Rightarrow> OAuthConfig \<Rightarrow> TokenStorage option \<Rightarrow> OAuthManager" where
  "new_OAuthManager rt cfg storage_arg =
     \<lparr>config = cfg,
      tokenStorage = (case storage_arg of Some st \<Rightarrow> st | None \<Rightarrow> new_TokenStorage rt None),
      currentPKCE = None,
      callbackServer = None,
      callbackPort = 8080\<rparr>"

text \<open>\<open>generatePKCE\<close>: \<open>rb\<close> is the random draw of \<open>generateRandomString(128)\<close>.\<close>

definition generatePKCE :: "runtime \<Rightarrow> buffer \<Rightarrow> PKCEChallenge" where
  "generatePKCE rt rb =
     (let v = generateRandomString (crypto rt) rb 128;
          c = generateSHA256Hash (crypto rt) v
      in \<lparr>verifier = v, challenge = c, pkce_method = ''S256''\<rparr>)"

definition join_spaces :: "string list \<Rightarrow> string" where
  "join_spaces xs = (case xs of [] \<Rightarrow> [] | y # ys \<Rightarrow> foldl (\<lambda>a b. a @ '' '' @ b) y ys)"

definition getAuthorizationUrl ::
  "runtime \<Rightarrow> buffer \<Rightarrow> buffer \<Rightarrow> OAuthManager \<Rightarrow> string \<times> OAuthManager" where
  "getAuthorizationUrl rt rb_verifier rb_state m =
     (let pkce = generatePKCE rt rb_verifier;
          m1 = m\<lparr>currentPKCE := Some pkce\<rparr>;
          params = encode_params rt
            [(''client_id'', clientId (config m1)),
             (''redirect_uri'', redirectUri (config m1)),
             (''response_type'', ''code''),
             (''scope'', join_spaces (scopes (config m1))),
             (''code_challenge'', challenge pkce),
             (''code_challenge_method'', pkce_method pkce),
             (''access_type'', ''offline''),
             (''prompt'', ''consent''),
             (''state'', generateRandomString (crypto rt) rb_state 32)]
      in (''https://accounts.google.com/o/oauth2/v2/auth?'' @ params, m1))"

text \<open>
  Methods of the manager return their outcome with the manager and the world as they are
  left, also when they throw. \<open>date_now\<close> is the clock read by \<open>updateTokenExpiry\<close>, and
  \<open>ivb\<close>, \<open>saltb\<close> are the random draws of the \<open>encrypt\<close> inside \<open>saveTokens\<close>.
\<close>

definition exchangeCodeForTokens ::
  "runtime \<Rightarrow> int \<Rightarrow> buffer \<Rightarrow> buffer \<Rightarrow> OAuthManager \<Rightarrow> world \<Rightarrow> string
     \<Rightarrow> (js_error + TokenSet) \<times> OAuthManager \<times> world" where
  "exchangeCodeForTokens rt date_now ivb saltb m w code =
     (case currentPKCE m of
        None \<Rightarrow> (Inl NoPKCEChallenge, m, w)
      | Some pkce \<Rightarrow>
          (let tokenEndpoint = ''https://oauth2.googleapis.com/token'';
               params = encode_params rt
                 [(''client_id'', clientId (config m)),
                  (''code'', code),
                  (''code_verifier'', verifier pkce),
                  (''grant_type'', ''authorization_code''),
                  (''redirect_uri'', redirectUri (config m))]
           in case fetch w tokenEndpoint params of
                FetchFailed \<Rightarrow> (Inl FetchError, m, w)
              | Response status body parsed \<Rightarrow>
                  (if \<not> response_ok status then (Inl (TokenExchangeFailed status body), m, w)
                   else case parsed of
                          None \<Rightarrow> (Inl SyntaxError, m, w)
                        | Some tokens \<Rightarrow>
                            (let tokensWithExpiry = updateTokenExpiry date_now tokens
                             in case saveTokens rt ivb saltb (tokenStorage m) (files w) tokensWithExpiry of
                                  (Inl e, st1, fs1) \<Rightarrow>
                                    (Inl e, m\<lparr>tokenStorage := st1\<rparr>, w\<lparr>files := fs1\<rparr>)
                                | (Inr _, st1, fs1) \<Rightarrow>
                                    (Inr tokensWithExpiry,
                                     m\<lparr>tokenStorage := st1, currentPKCE := None\<rparr>,
                                     w\<lparr>files := fs1\<rparr>)))))"

definition refreshAccessToken ::
  "runtime \<Rightarrow> int \<Rightarrow> buffer \<Rightarrow> buffer \<Rightarrow> OAuthManager \<Rightarrow> world
     \<Rightarrow> (js_error + TokenSet) \<times> OAuthManager \<times> world" where
  "refreshAccessToken rt date_now ivb saltb m w =
     (case loadTokens rt (tokenStorage m) (files w) of
        (Inl e, st0) \<Rightarrow> (Inl e, m\<lparr>tokenStorage := st0\<rparr>, w)
      | (Inr loaded, st0) \<Rightarrow>
          (let m0 = m\<lparr>tokenStorage := st0\<rparr>
           in case loaded of
                None \<Rightarrow> (Inl NoRefreshToken, m0, w)
              | Some existingTokens \<Rightarrow>
                  (if \<not> truthy_str (refresh_token existingTokens) then (Inl NoRefreshToken, m0, w)
                   else
                     (let tokenEndpoint = ''https://oauth2.googleapis.com/token'';
                          params = encode_params rt
                            [(''client_id'', clientId (config m0)),
                             (''refresh_token'', the (refresh_token existingTokens)),
                             (''grant_type'', ''refresh_token'')]
                      in case fetch w tokenEndpoint params of
                           FetchFailed \<Rightarrow> (Inl FetchError, m0, w)
                         | Response status body parsed \<Rightarrow>
                             (if \<not> response_ok status
                              then (Inl (TokenRefreshFailed status body), m0, w)
                              else case parsed of
                                     None \<Rightarrow> (Inl SyntaxError, m0, w)
                                   | Some response_tokens \<Rightarrow>
                                       (let newTokens =
                                              (if \<not> truthy_str (refresh_token response_tokens) \<and>
                                                  truthy_str (refresh_token existingTokens)
                                               then response_tokens\<lparr>refresh_token :=
                                                      refresh_token existingTokens\<rparr>
                                               else response_tokens);
                                            tokensWithExpiry = updateTokenExpiry date_now newTokens
                                        in case saveTokens rt ivb saltb st0 (files w) tokensWithExpiry of
                                             (Inl e, st1, fs1) \<Rightarrow>
                                               (Inl e, m0\<lparr>tokenStorage := st1\<rparr>, w\<lparr>files := fs1\<rparr>)
                                           | (Inr _, st1, fs1) \<Rightarrow>
                                               (Inr tokensWithExpiry, m0\<lparr>tokenStorage := st1\<rparr>,
                                                w\<lparr>files := fs1\<rparr>)))))))"

definition isTokenValid ::
  "runtime \<Rightarrow> int \<Rightarrow> OAuthManager \<Rightarrow> world \<Rightarrow> (js_error + bool) \<times> OAuthManager" where
  "isTokenValid rt date_now m w =
     (case loadTokens rt (tokenStorage m) (files w) of
        (Inl e, st0) \<Rightarrow> (Inl e, m\<lparr>tokenStorage := st0\<rparr>)
      | (Inr None, st0) \<Rightarrow> (Inr False, m\<lparr>tokenStorage := st0\<rparr>)
      | (Inr (Some tokens), st0) \<Rightarrow>
          (Inr (\<not> isTokenExpired date_now tokens), m\<lparr>tokenStorage := st0\<rparr>))"

text \<open>
  \<open>getValidAccessToken\<close>: \<open>now_check\<close> is the clock at the validity check, \<open>now_refresh\<close> the
  clock when the refreshed record gets its expiry.
\<close>

definition getValidAccessToken ::
  "runtime \<Rightarrow> int \<Rightarrow> int \<Rightarrow> buffer \<Rightarrow> buffer \<Rightarrow> OAuthManager \<Rightarrow> world
     \<Rightarrow> (js_error + string) \<times> OAuthManager \<times> world" where
  "getValidAccessToken rt now_check now_refresh ivb saltb m w =
     (case isTokenValid rt now_check m w of
        (Inl e, m1) \<Rightarrow> (Inl e, m1, w)
      | (Inr isValid, m1) \<Rightarrow>
          (if \<not> isValid then
             (case refreshAccessToken rt now_refresh ivb saltb m1 w of
                (Inr refreshedTokens, m2, w2) \<Rightarrow> (Inr (access_token refreshedTokens), m2, w2)
              | (Inl _, m2, w2) \<Rightarrow> (Inl RefreshFailedReauth, m2, w2))
           else
             (case loadTokens rt (tokenStorage m1) (files w) of
                (Inl e, st2) \<Rightarrow> (Inl e, m1\<lparr>tokenStorage := st2\<rparr>, w)
              | (Inr None, st2) \<Rightarrow> (Inl NoTokensAvailable, m1\<lparr>tokenStorage := st2\<rparr>, w)
              | (Inr (Some tokens), st2) \<Rightarrow>
                  (Inr (access_token tokens), m1\<lparr>tokenStorage := st2\<rparr>, w))))"

definition getValidTokens ::
  "runtime \<Rightarrow> int \<Rightarrow> int \<Rightarrow> buffer \<Rightarrow> buffer \<Rightarrow> OAuthManager \<Rightarrow> world
     \<Rightarrow> (js_error + TokenSet option) \<times> OAuthManager \<times> world" where
  "getValidTokens rt now_check now_refresh ivb saltb m w =
     (case isTokenValid rt now_check m w of
        (Inl e, m1) \<Rightarrow> (Inl e, m1, w)
      | (Inr isValid, m1) \<Rightarrow>
          (if \<not> isValid then
             (case refreshAccessToken rt now_refresh ivb saltb m1 w of
                (Inr refreshedTokens, m2, w2) \<Rightarrow> (Inr (Some refreshedTokens), m2, w2)
              | (Inl _, m2, w2) \<Rightarrow> (Inr None, m2, w2))
           else
             (case loadTokens rt (tokenStorage m1) (files w) of
                (r, st2) \<Rightarrow> (r, m1\<lparr>tokenStorage := st2\<rparr>, w))))"

text \<open>
  \<open>startCallbackServer\<close>: the server object is stored before it listens. The \<open>error\<close>
  handler stays installed, so every \<open>EADDRINUSE\<close> moves to the next port; any other error
  rejects. Port numbers end at 65535: \<open>listen\<close> on a larger one raises a range error
  (inside the handler, which ends the process; here it is the outcome of the call).
\<close>

definition listen_error :: "world \<Rightarrow> nat \<Rightarrow> string option" where
  "listen_error w p = (if p \<in> listeners w then Some ''EADDRINUSE'' else port_error w p)"

function try_listen :: "world \<Rightarrow> nat \<Rightarrow> (js_error + nat) \<times> nat" where
  "try_listen w p =
     (if 65535 < p then (Inl (SystemError ''ERR_SOCKET_BAD_PORT''), p)
      else case listen_error w p of
             None \<Rightarrow> (Inr p, p)
           | Some c \<Rightarrow>
               (if c = ''EADDRINUSE'' then try_listen w (p + 1)
                else (Inl (SystemError c), p)))"
  by pat_completeness auto
termination
  by (relation "measure (\<lambda>(w, p). 65536 - p)") auto

declare try_listen.simps [simp del]

definition startCallbackServer ::
  "OAuthManager \<Rightarrow> world \<Rightarrow> (js_error + nat) \<times> OAuthManager \<times> world" where
  "startCallbackServer m w =
     (case try_listen w (callbackPort m) of
        (Inr p, p_last) \<Rightarrow>
          (Inr p,
           m\<lparr>callbackServer := Some \<lparr>bound_port = Some p\<rparr>, callbackPort := p_last\<rparr>,
           w\<lparr>listeners := insert p (listeners w)\<rparr>)
      | (Inl e, p_last) \<Rightarrow>
          (Inl e,
           m\<lparr>callbackServer := Some \<lparr>bound_port = None\<rparr>, callbackPort := p_last\<rparr>,
           w))"

text \<open>
  \<open>waitForCallback\<close>: \<open>requests\<close> are the requests that arrive before the 5-minute timer
  fires, in order. A request on another path is answered 404 and the wait goes on.
\<close>

record http_request =
  pathname :: string
  query_code :: "string option"
  query_error :: "string option"
  query_error_description :: "string option"

fun await_request :: "http_request list \<Rightarrow> js_error + string" where
  "await_request [] = Inl OAuthCallbackTimeout"
| "await_request (req # rest) =
     (if pathname req = ''/oauth/callback'' then
        (if truthy_str (query_error req)
         then Inl (OAuthError (the (query_error req))
                     (case query_error_description req of None \<Rightarrow> ''undefined'' | Some d \<Rightarrow> d))
         else if truthy_str (query_code req) then Inr (the (query_code req))
         else Inl NoAuthorizationCode)
      else await_request rest)"

definition waitForCallback :: "OAuthManager \<Rightarrow> http_request list \<Rightarrow> js_error + string" where
  "waitForCallback m requests =
     (case callbackServer m of
        None \<Rightarrow> Inl CallbackServerNotStarted
      | Some _ \<Rightarrow> await_request requests)"

definition stopCallbackServer :: "OAuthManager \<Rightarrow> world \<Rightarrow> OAuthManager \<times> world" where
  "stopCallbackServer m w =
     (case callbackServer m of
        None \<Rightarrow> (m, w)
      | Some srv \<Rightarrow>
          (m\<lparr>callbackServer := None\<rparr>,
           (case bound_port srv of
              None \<Rightarrow> w
            | Some p \<Rightarrow> w\<lparr>listeners := listeners w - {p}\<rparr>)))"

text \<open>
  \<open>completeOAuthFlow\<close>: \<open>completeOAuthFlow_try\<close> is the \<open>try\<close> block, and the \<open>finally\<close>
  block runs \<open>stopCallbackServer\<close> on whatever state the block leaves.
\<close>

definition completeOAuthFlow_try ::
  "runtime \<Rightarrow> int \<Rightarrow> buffer \<Rightarrow> buffer \<Rightarrow> buffer \<Rightarrow> buffer \<Rightarrow> http_request list
     \<Rightarrow> OAuthManager \<Rightarrow> world \<Rightarrow> (js_error + TokenSet) \<times> OAuthManager \<times> world" where
  "completeOAuthFlow_try rt date_now rb_verifier rb_state ivb saltb requests m w =
     (case startCallbackServer m w of
        (Inl e, m1, w1) \<Rightarrow> (Inl e, m1, w1)
      | (Inr port, m1, w1) \<Rightarrow>
          (let m2 = m1\<lparr>config := (config m1)\<lparr>redirectUri :=
                      ''http://localhost:'' @ show_nat port @ ''/oauth/callback''\<rparr>\<rparr>;
               (authUrl, m3) = getAuthorizationUrl rt rb_verifier rb_state m2
           in case waitForCallback m3 requests of
                Inl e \<Rightarrow> (Inl e, m3, w1)
              | Inr authCode \<Rightarrow> exchangeCodeForTokens rt date_now ivb saltb m3 w1 authCode))"

definition completeOAuthFlow ::
  "runtime \<Rightarrow> int \<Rightarrow> buffer \<Rightarrow> buffer \<Rightarrow> buffer \<Rightarrow> buffer \<Rightarrow> http_request list
     \<Rightarrow> OAuthManager \<Rightarrow> world \<Rightarrow> (js_error + TokenSet) \<times> OAuthManager \<times> world" where
  "completeOAuthFlow rt date_now rb_verifier rb_state ivb saltb requests m w =
     (case completeOAuthFlow_try rt date_now rb_verifier rb_state ivb saltb requests m w of
        (r, m1, w1) \<Rightarrow> (case stopCallbackServer m1 w1 of (m2, w2) \<Rightarrow> (r, m2, w2)))"


text \<open>
  The record that \<open>refreshAccessToken\<close> builds from the stored record and the response
  (\<open>Preserve refresh token if not provided in response\<close>), named for the statements below;
  \<open>refreshAccessToken\<close> has the same expression inline.
\<close>

definition carried :: "TokenSet \<Rightarrow> TokenSet \<Rightarrow> TokenSet" where
  "carried existingTokens response_tokens =
     (if \<not> truthy_str (refresh_token response_tokens) \<and> truthy_str (refresh_token existingTokens)
      then response_tokens\<lparr>refresh_token := refresh_token existingTokens\<rparr>
      else response_tokens)"

section \<open>A small runtime to run the model on\<close>

text \<open>
  An instance of the \<open>crypto\<close> parameter for concrete runs: the ciphertext adds the first
  IV byte to every plaintext byte, the tag is the first half of the key, and opening
  checks the tag. It meets \<open>gcm_correct\<close>. The text encoding and the hash are stand-ins.
\<close>

definition demo_crypto :: crypto_module where
  "demo_crypto =
     \<lparr>gcm_seal = (\<lambda>key ivb aad p.
         if length key = 32 \<and> ivb \<noteq> [] then Some (map (\<lambda>b. b + hd ivb) p, take 16 key)
         else None),
      gcm_open = (\<lambda>key ivb aad ct tag.
         if length key = 32 \<and> ivb \<noteq> [] \<and> tag = take 16 key
         then Some (map (\<lambda>b. b - hd ivb) ct) else None),
      pbkdf2 = (\<lambda>password saltb iterations keylen. replicate keylen 1),
      base64url = to_hex,
      sha256_base64url = rev\<rparr>"


text \<open>
  An instance of the \<open>JSON\<close> parameter for concrete runs: an envelope is its three
  fields joined by colons, a token record is its six fields joined by bars, an absent
  field is empty, a present one starts with \<open>=\<close>, and numbers are decimal.
\<close>

fun split_on :: "char \<Rightarrow> string \<Rightarrow> string list" where
  "split_on c [] = [[]]"
| "split_on c (x # xs) =
     (if x = c then [] # split_on c xs
      else (case split_on c xs of
              p # ps \<Rightarrow> (x # p) # ps
            | [] \<Rightarrow> [[x]]))"

definition read_nat :: "string \<Rightarrow> nat" where
  "read_nat s = foldl (\<lambda>a c. 10 * a + (of_char c - 48)) 0 s"

definition show_opt_str :: "string option \<Rightarrow> string" where
  "show_opt_str x = (case x of None \<Rightarrow> [] | Some v \<Rightarrow> CHR ''='' # v)"

definition read_opt_str :: "string \<Rightarrow> string option" where
  "read_opt_str s = (case s of [] \<Rightarrow> None | _ # v \<Rightarrow> Some v)"

definition show_opt_num :: "int option \<Rightarrow> string" where
  "show_opt_num x = (case x of None \<Rightarrow> [] | Some v \<Rightarrow> CHR ''='' # show_nat (nat v))"

definition read_opt_num :: "string \<Rightarrow> int option" where
  "read_opt_num s = (case s of [] \<Rightarrow> None | _ # v \<Rightarrow> Some (int (read_nat v)))"

definition demo_json :: json_module where
  "demo_json =
     \<lparr>stringify_tokens = (\<lambda>t.
         access_token t @ ''|'' @ show_opt_str (refresh_token t) @ ''|'' @
         show_opt_num (expires_in t) @ ''|'' @ show_opt_str (token_type t) @ ''|'' @
         show_opt_str (scope t) @ ''|'' @ show_opt_num (expires_at t)),
      parse_tokens = (\<lambda>s.
         case split_on CHR ''|'' s of
           [a, r, ei, tt, sc, ea] \<Rightarrow>
             Some \<lparr>access_token = a, refresh_token = read_opt_str r,
                   expires_in = read_opt_num ei, token_type = read_opt_str tt,
                   scope = read_opt_str sc, expires_at = read_opt_num ea\<rparr>
         | _ \<Rightarrow> None),
      stringify_envelope = (\<lambda>e. data e @ '':'' @ iv e @ '':'' @ salt e),
      parse_envelope = (\<lambda>s.
         case split_on CHR '':'' s of
           [d, i, sa] \<Rightarrow> Parsed \<lparr>data = d, iv = i, salt = sa\<rparr>
         | [x] \<Rightarrow> (if x = ''null'' then WrongShape else NotJSON)
         | _ \<Rightarrow> NotJSON)\<rparr>"

definition demo_runtime :: runtime where
  "demo_runtime =
     \<lparr>crypto = demo_crypto,
      json = demo_json,
      os = \<lparr>hostname = ''host'', username = ''user'', homedir = ''/home/user''\<rparr>,
      encode_params = (\<lambda>ps. concat (map (\<lambda>(k, v). k @ ''='' @ v @ ''&'') ps))\<rparr>"

definition demo_storage :: TokenStorage where
  "demo_storage = new_TokenStorage demo_runtime None"

definition no_fault :: "fs_op \<Rightarrow> string \<Rightarrow> errno option" where
  "no_fault op p = None"

definition empty_fs :: filesystem where
  "empty_fs = \<lparr>entries = Map.empty, fault = no_fault\<rparr>"

definition demo_iv :: buffer where
  "demo_iv = replicate 16 2"

definition demo_salt :: buffer where
  "demo_salt = replicate 32 3"

definition demo_tokens :: TokenSet where
  "demo_tokens =
     \<lparr>access_token = ''at1'', refresh_token = Some ''rt1'', expires_in = Some 3600,
      token_type = Some ''Bearer'', scope = Some ''tasks'', expires_at = Some 5000\<rparr>"


definition fs_with_file :: "string \<Rightarrow> filesystem" where
  "fs_with_file content =
     \<lparr>entries = [tokenFilePath demo_storage \<mapsto> File content mode_0o600], fault = no_fault\<rparr>"



definition demo_config :: OAuthConfig where
  "demo_config =
     \<lparr>clientId = ''client'', redirectUri = ''http://localhost:8080/oauth/callback'',
      scopes = [''tasks'']\<rparr>"

definition demo_manager :: OAuthManager where
  "demo_manager = new_OAuthManager demo_runtime demo_config None"

definition demo_authorized :: OAuthManager where
  "demo_authorized = snd (getAuthorizationUrl demo_runtime [1, 2, 3] [4, 5, 6] demo_manager)"

text \<open>
  A world whose token endpoint answers every request with status 200 and the record
  \<open>resp\<close>, over the file system \<open>fs\<close>; and the file system left by saving \<open>stored\<close>.
\<close>

definition demo_world :: "filesystem \<Rightarrow> TokenSet \<Rightarrow> world" where
  "demo_world fs resp =
     \<lparr>files = fs, fetch = (\<lambda>url body. Response 200 [] (Some resp)), listeners = {},
      port_error = (\<lambda>p. None)\<rparr>"

definition fs_storing :: "TokenSet \<Rightarrow> filesystem" where
  "fs_storing stored =
     snd (snd (saveTokens demo_runtime demo_iv demo_salt demo_storage empty_fs stored))"

definition demo_response :: TokenSet where
  "demo_response =
     \<lparr>access_token = ''at2'', refresh_token = None, expires_in = Some 3600,
      token_type = Some ''Bearer'', scope = None, expires_at = None\<rparr>"


definition stale_response :: TokenSet where
  "stale_response =
     \<lparr>access_token = ''at3'', refresh_token = None, expires_in = None,
      token_type = None, scope = None, expires_at = Some 5\<rparr>"


text \<open>
  A stored record that expired at second 1000, a refresh response with a lifetime of 60
  seconds, and the record that a refresh at second 2000 makes of the two.
\<close>

definition expired_tokens :: TokenSet where
  "expired_tokens =
     \<lparr>access_token = ''at1'', refresh_token = Some ''rt1'', expires_in = Some 3600,
      token_type = None, scope = None, expires_at = Some 1000\<rparr>"

definition short_response :: TokenSet where
  "short_response =
     \<lparr>access_token = ''at2'', refresh_token = None, expires_in = Some 60,
      token_type = None, scope = None, expires_at = None\<rparr>"

definition short_refreshed :: TokenSet where
  "short_refreshed =
     \<lparr>access_token = ''at2'', refresh_token = Some ''rt1'', expires_in = Some 60,
      token_type = None, scope = None, expires_at = Some 2060\<rparr>"


section \<open>Properties\<close>

subsection \<open>Hex text, slices and the envelope\<close>

lemma utf8_roundtrip: "utf8_string (utf8_bytes s) = s"
  by (simp add: utf8_string_def utf8_bytes_def comp_def unat_of_nat map_idI)

lemma below_16:
  "k < 16 \<Longrightarrow>
   k \<in> {15, 14, 13, 12} \<or> k \<in> {11, 10, 9, 8} \<or> k \<in> {7, 6, 5, 4} \<or> k \<in> {3, 2, 1, 0::nat}"
  by (simp only: insert_iff empty_iff) arith

lemma hex_val_digit: "n < 16 \<Longrightarrow> hex_val (hex_digit n) = Some n"
  by (drule below_16) (elim disjE insertE emptyE; simp add: hex_val_def hex_digit_def)

lemma from_hex_to_hex: "from_hex (to_hex b) = b"
proof (induction b)
  case Nil
  show ?case by (simp add: to_hex_def)
next
  case (Cons w b)
  have "unat w div 16 < 16" using unsigned_less [of w, where 'a = nat] by simp
  then show ?case using Cons
    by (simp add: to_hex_def hex_of_byte_def hex_val_digit)
qed

lemma length_to_hex: "length (to_hex b) = 2 * length b"
  by (induction b) (simp_all add: to_hex_def hex_of_byte_def)

lemma slice_front: "length t = 32 \<Longrightarrow> js_slice (a @ t) 0 (Some (- 32)) = a"
  by (simp add: js_slice_def js_index_def Let_def)

lemma slice_back: "length t = 32 \<Longrightarrow> js_slice (a @ t) (- 32) None = t"
  by (simp add: js_slice_def js_index_def Let_def)

lemma decrypt_sealed:
  assumes "length authTag = TAG_LENGTH"
  shows "decrypt cm \<lparr>data = to_hex ct @ to_hex authTag, iv = to_hex ivb, salt = to_hex saltb\<rparr> key =
         (case gcm_open cm key ivb saltb ct authTag of
            None \<Rightarrow> Inl CryptoError | Some d \<Rightarrow> Inr (utf8_string d))"
proof -
  have len: "length (to_hex authTag) = 32"
    using assms by (simp add: length_to_hex TAG_LENGTH_def)
  show ?thesis
    by (simp add: decrypt_def Let_def TAG_LENGTH_def slice_front [OF len] slice_back [OF len]
        from_hex_to_hex)
qed

lemma encrypt_then_decrypt:
  assumes "gcm_correct cm"
    and "length key = KEY_LENGTH" and "length ivb = IV_LENGTH" and "length saltb = SALT_LENGTH"
  shows "\<exists>e. encrypt cm ivb saltb P key = Inr e \<and> decrypt cm e key = Inr P"
proof -
  from assms obtain ct tag where
    seal: "gcm_seal cm key ivb saltb (utf8_bytes P) = Some (ct, tag)" and
    tag: "length tag = TAG_LENGTH" and
    opn: "gcm_open cm key ivb saltb ct tag = Some (utf8_bytes P)"
    unfolding gcm_correct_def by blast
  have "encrypt cm ivb saltb P key =
        Inr \<lparr>data = to_hex ct @ to_hex tag, iv = to_hex ivb, salt = to_hex saltb\<rparr>"
    by (simp add: encrypt_def seal)
  moreover have "decrypt cm \<lparr>data = to_hex ct @ to_hex tag, iv = to_hex ivb, salt = to_hex saltb\<rparr> key = Inr P"
    by (simp add: decrypt_sealed [OF tag] opn utf8_roundtrip)
  ultimately show ?thesis by simp
qed


lemma demo_crypto_correct: "gcm_correct demo_crypto"
  by (simp add: gcm_correct_def demo_crypto_def KEY_LENGTH_def IV_LENGTH_def SALT_LENGTH_def
      TAG_LENGTH_def comp_def) auto


lemma to_hex_inj: "to_hex a = to_hex b \<Longrightarrow> a = b"
  by (metis from_hex_to_hex)

text \<open>
  Claim C8. Two calls of \<open>encrypt\<close> with the same plaintext and the same key, whose random
  draws differ in the IV or in the additional data, produce different envelopes.
\<close>

theorem encrypt_fresh_draws_differ:
  assumes "encrypt cm iv1 salt1 P key = Inr e1"
    and "encrypt cm iv2 salt2 P key = Inr e2"
    and "iv1 \<noteq> iv2 \<or> salt1 \<noteq> salt2"
  shows "e1 \<noteq> e2"
proof
  assume eq: "e1 = e2"
  from assms(1) have 1: "iv e1 = to_hex iv1" "salt e1 = to_hex salt1"
    by (auto simp: encrypt_def split: option.splits prod.splits)
  from assms(2) have 2: "iv e2 = to_hex iv2" "salt e2 = to_hex salt2"
    by (auto simp: encrypt_def split: option.splits prod.splits)
  from eq 1 2 have "iv1 = iv2" "salt1 = salt2"
    by (auto dest: to_hex_inj)
  with assms(3) show False by simp
qed

theorem encrypt_fresh_draws_differ_witness:
  "\<exists>e1 e2.
     encrypt demo_crypto (replicate 16 2) (replicate 32 3) ''tok'' (replicate 32 7) = Inr e1 \<and>
     encrypt demo_crypto (replicate 16 5) (replicate 32 3) ''tok'' (replicate 32 7) = Inr e2 \<and>
     (replicate 16 (2::8 word) \<noteq> replicate 16 5 \<or> replicate 32 (3::8 word) \<noteq> replicate 32 3) \<and>
     e1 \<noteq> e2"
proof -
  obtain e1 where 1:
    "encrypt demo_crypto (replicate 16 2) (replicate 32 3) ''tok'' (replicate 32 7) = Inr e1"
    by (simp add: encrypt_def demo_crypto_def)
  obtain e2 where 2:
    "encrypt demo_crypto (replicate 16 5) (replicate 32 3) ''tok'' (replicate 32 7) = Inr e2"
    by (simp add: encrypt_def demo_crypto_def)
  have 3: "replicate 16 (2::8 word) \<noteq> replicate 16 5 \<or> replicate 32 (3::8 word) \<noteq> replicate 32 3"
    by simp
  from encrypt_fresh_draws_differ [OF 1 2 3] 1 2 3 show ?thesis by blast
qed

subsection \<open>Loading the token file\<close>



lemma loadTokens_try_missing:
  "entries fs (tokenFilePath st) = None \<Longrightarrow>
   loadTokens_try rt st fs = (Inl (SystemError ''ENOENT''), st)"
  by (simp add: loadTokens_try_def fs_readFile_def)


lemma loadTokens_fst:
  "fst (loadTokens rt st fs) =
     (case fst (loadTokens_try rt st fs) of
        Inr t \<Rightarrow> Inr (Some t)
      | Inl e \<Rightarrow> if error_code e = Some ''ENOENT'' then Inr None else Inl (FailedToLoadTokens e))"
  by (simp add: loadTokens_def split: prod.splits sum.splits)


lemma demo_path: "tokenFilePath demo_storage = ''/home/user/.google-tasks-mcp/tokens.enc''"
  by (simp add: demo_storage_def new_TokenStorage_def demo_runtime_def path_join_def Let_def)

lemma demo_key: "fst (getEncryptionKey demo_runtime demo_storage) = replicate 32 1"
  by (simp add: getEncryptionKey_def demo_storage_def new_TokenStorage_def demo_runtime_def
      demo_crypto_def deriveKey_def KEY_LENGTH_def Let_def)

lemma demo_parse_garbage: "parse_envelope (json demo_runtime) ''garbage'' = NotJSON"
  by (simp add: demo_runtime_def demo_json_def)





subsection \<open>Expiry of a record\<close>

lemma isTokenExpired_iff:
  "isTokenExpired date_now tokens \<longleftrightarrow>
     (\<exists>e. expires_at tokens = Some e \<and> e \<noteq> 0 \<and> e \<le> date_now div 1000 + 300)"
  by (cases "expires_at tokens") (simp_all add: isTokenExpired_def Let_def)

text \<open>
  Claim C6, at the record whose \<open>expires_at\<close> is the timestamp 0: the field is present and
  lies before the current time plus 300 seconds, and the record is reported not expired.
\<close>

theorem isTokenExpired_zero_timestamp:
  "expires_at \<lparr>access_token = ''t'', refresh_token = None, expires_in = None,
                token_type = None, scope = None, expires_at = Some 0\<rparr> = Some 0 \<and>
   (0::int) \<le> 1700000000000 div 1000 + 300 \<and>
   isTokenExpired 1700000000000
     \<lparr>access_token = ''t'', refresh_token = None, expires_in = None,
      token_type = None, scope = None, expires_at = Some 0\<rparr> = False"
  by (simp add: isTokenExpired_def)

subsection \<open>Saving and loading\<close>

lemma getEncryptionKey_path: "tokenFilePath (snd (getEncryptionKey rt st)) = tokenFilePath st"
  by (simp add: getEncryptionKey_def Let_def split: option.splits)

lemma getEncryptionKey_idem:
  "getEncryptionKey rt (snd (getEncryptionKey rt st)) =
     (fst (getEncryptionKey rt st), snd (getEncryptionKey rt st))"
  by (simp add: getEncryptionKey_def Let_def split: option.splits)

lemma saveTokens_success:
  assumes "saveTokens rt ivb saltb st fs tokens = (Inr (), st1, fs1)"
  shows "\<exists>e md. encrypt (crypto rt) ivb saltb (stringify_tokens (json rt) tokens)
                  (fst (getEncryptionKey rt st)) = Inr e \<and>
                entries fs1 (tokenFilePath st) = Some (File (stringify_envelope (json rt) e) md) \<and>
                fault fs1 = fault fs \<and> st1 = snd (getEncryptionKey rt st)"
  using assms
  by (auto simp: saveTokens_def ensureConfigDir_def fs_access_def fs_mkdir_def fs_writeFile_def
      setSecurePermissions_def fs_chmod_def getEncryptionKey_path Let_def case_prod_beta
      split: sum.splits option.splits node.splits if_splits)

lemma saveTokens_then_loadTokens:
  assumes gcm: "gcm_correct (crypto rt)"
    and key: "length (fst (getEncryptionKey rt st)) = KEY_LENGTH"
    and draws: "length ivb = IV_LENGTH" "length saltb = SALT_LENGTH"
    and json_tokens: "parse_tokens (json rt) (stringify_tokens (json rt) tokens) = Some tokens"
    and json_envelope:
      "\<forall>e. encrypt (crypto rt) ivb saltb (stringify_tokens (json rt) tokens)
              (fst (getEncryptionKey rt st)) = Inr e \<longrightarrow>
           parse_envelope (json rt) (stringify_envelope (json rt) e) = Parsed e"
    and saved: "saveTokens rt ivb saltb st fs tokens = (Inr (), st1, fs1)"
    and readable: "fault fs OpReadFile (tokenFilePath st) = None"
    and same_path: "tokenFilePath st' = tokenFilePath st"
    and same_key: "fst (getEncryptionKey rt st') = fst (getEncryptionKey rt st)"
  shows "fst (loadTokens rt st' fs1) = Inr (Some tokens)"
proof -
  from saveTokens_success [OF saved] obtain e md where
    enc: "encrypt (crypto rt) ivb saltb (stringify_tokens (json rt) tokens)
            (fst (getEncryptionKey rt st)) = Inr e" and
    ent: "entries fs1 (tokenFilePath st) = Some (File (stringify_envelope (json rt) e) md)" and
    flt: "fault fs1 = fault fs"
    by blast
  from encrypt_then_decrypt [OF gcm key draws, of "stringify_tokens (json rt) tokens"] enc
  have dec: "decrypt (crypto rt) e (fst (getEncryptionKey rt st)) =
             Inr (stringify_tokens (json rt) tokens)"
    by simp
  from json_envelope enc
  have pe: "parse_envelope (json rt) (stringify_envelope (json rt) e) = Parsed e"
    by blast
  show ?thesis
    by (simp add: loadTokens_fst loadTokens_try_def fs_readFile_def same_path ent flt readable
        pe case_prod_beta same_key dec json_tokens)
qed

text \<open>
  Claim C10. When \<open>saveTokens\<close> succeeds on a record that \<open>JSON\<close> represents, and the file
  can then be read, \<open>loadTokens\<close> through a store object with the same path and the same
  machine-derived key returns exactly the record that was saved.
\<close>

theorem save_then_load:
  assumes gcm: "gcm_correct (crypto rt)"
    and key: "length (fst (getEncryptionKey rt st)) = KEY_LENGTH"
    and draws: "length ivb = IV_LENGTH" "length saltb = SALT_LENGTH"
    and json_tokens: "parse_tokens (json rt) (stringify_tokens (json rt) tokens) = Some tokens"
    and json_envelope:
      "\<forall>e. encrypt (crypto rt) ivb saltb (stringify_tokens (json rt) tokens)
              (fst (getEncryptionKey rt st)) = Inr e \<longrightarrow>
           parse_envelope (json rt) (stringify_envelope (json rt) e) = Parsed e"
    and saved: "saveTokens rt ivb saltb st fs tokens = (Inr (), st1, fs1)"
    and readable: "fault fs OpReadFile (tokenFilePath st) = None"
    and same_path: "tokenFilePath st' = tokenFilePath st"
    and same_key: "fst (getEncryptionKey rt st') = fst (getEncryptionKey rt st)"
  shows "fst (loadTokens rt st' fs1) = Inr (Some tokens)"
  using assms by (rule saveTokens_then_loadTokens)

lemma demo_json_tokens:
  "parse_tokens (json demo_runtime) (stringify_tokens (json demo_runtime) demo_tokens) = Some demo_tokens"
  by (simp add: demo_runtime_def demo_json_def demo_tokens_def show_opt_str_def show_opt_num_def
      read_opt_str_def read_opt_num_def read_nat_def show_nat.simps)

lemma split_on_absent: "c \<notin> set a \<Longrightarrow> split_on c a = [a]"
  by (induction a) auto

lemma split_on_append: "c \<notin> set a \<Longrightarrow> split_on c (a @ c # rest) = a # split_on c rest"
  by (induction a) auto

lemma hex_digit_not_colon: "n < 16 \<Longrightarrow> hex_digit n \<noteq> CHR '':''"
  by (drule below_16) (elim disjE insertE emptyE; simp add: hex_digit_def)

lemma to_hex_no_colon: "CHR '':'' \<notin> set (to_hex b)"
proof (induction b)
  case Nil
  show ?case by (simp add: to_hex_def)
next
  case (Cons w b)
  have d: "unat w div 16 < 16" using unsigned_less [of w, where 'a = nat] by simp
  have m: "unat w mod 16 < 16" by simp
  from hex_digit_not_colon [OF d] hex_digit_not_colon [OF m]
  have "CHR '':'' \<notin> set (hex_of_byte w)"
    by (simp add: hex_of_byte_def)
  with Cons show ?case
    by (simp add: to_hex_def)
qed

lemma demo_envelope_codec:
  assumes "CHR '':'' \<notin> set (data e)" "CHR '':'' \<notin> set (iv e)" "CHR '':'' \<notin> set (salt e)"
  shows "parse_envelope (json demo_runtime) (stringify_envelope (json demo_runtime) e) = Parsed e"
  using assms by (simp add: demo_runtime_def demo_json_def split_on_append split_on_absent)

lemma demo_envelope_roundtrip:
  assumes "encrypt cm ivb saltb P key = Inr e"
  shows "parse_envelope (json demo_runtime) (stringify_envelope (json demo_runtime) e) = Parsed e"
proof -
  from assms obtain ct tag where
    e: "e = \<lparr>data = to_hex ct @ to_hex tag, iv = to_hex ivb, salt = to_hex saltb\<rparr>"
    by (auto simp: encrypt_def split: option.splits)
  show ?thesis
    by (rule demo_envelope_codec) (simp_all add: e to_hex_no_colon)
qed

lemma demo_gcm: "gcm_correct (crypto demo_runtime)"
  by (simp add: demo_runtime_def demo_crypto_correct)

lemma demo_key_length: "length (fst (getEncryptionKey demo_runtime demo_storage)) = KEY_LENGTH"
  by (simp add: demo_key KEY_LENGTH_def)

lemma demo_draws: "length demo_iv = IV_LENGTH" "length demo_salt = SALT_LENGTH"
  by (simp_all add: demo_iv_def demo_salt_def IV_LENGTH_def SALT_LENGTH_def)

lemma demo_configDir: "configDir demo_storage = ''/home/user/.google-tasks-mcp''"
  by (simp add: demo_storage_def new_TokenStorage_def demo_runtime_def path_join_def Let_def)

lemma demo_save:
  "\<exists>st1 fs1. saveTokens demo_runtime demo_iv demo_salt demo_storage empty_fs tokens =
     (Inr (), st1, fs1)"
proof -
  from encrypt_then_decrypt [OF demo_gcm demo_key_length demo_draws]
  obtain e where
    "encrypt (crypto demo_runtime) demo_iv demo_salt (stringify_tokens (json demo_runtime) tokens)
       (fst (getEncryptionKey demo_runtime demo_storage)) = Inr e"
    by blast
  then show ?thesis
    by (simp add: saveTokens_def ensureConfigDir_def fs_access_def fs_mkdir_def fs_writeFile_def
        empty_fs_def no_fault_def demo_path demo_configDir getEncryptionKey_path case_prod_beta)
qed

theorem save_then_load_witness:
  "gcm_correct (crypto demo_runtime) \<and>
   length (fst (getEncryptionKey demo_runtime demo_storage)) = KEY_LENGTH \<and>
   length demo_iv = IV_LENGTH \<and> length demo_salt = SALT_LENGTH \<and>
   parse_tokens (json demo_runtime) (stringify_tokens (json demo_runtime) demo_tokens) =
     Some demo_tokens \<and>
   (\<exists>e. encrypt (crypto demo_runtime) demo_iv demo_salt
           (stringify_tokens (json demo_runtime) demo_tokens)
           (fst (getEncryptionKey demo_runtime demo_storage)) = Inr e \<and>
        parse_envelope (json demo_runtime) (stringify_envelope (json demo_runtime) e) = Parsed e) \<and>
   fault empty_fs OpReadFile (tokenFilePath demo_storage) = None \<and>
   (\<exists>st1 fs1.
      saveTokens demo_runtime demo_iv demo_salt demo_storage empty_fs demo_tokens =
        (Inr (), st1, fs1) \<and>
      fst (loadTokens demo_runtime demo_storage fs1) = Inr (Some demo_tokens))"
proof -
  have env: "\<forall>e. encrypt (crypto demo_runtime) demo_iv demo_salt
           (stringify_tokens (json demo_runtime) demo_tokens)
           (fst (getEncryptionKey demo_runtime demo_storage)) = Inr e \<longrightarrow>
        parse_envelope (json demo_runtime) (stringify_envelope (json demo_runtime) e) = Parsed e"
    by (blast intro: demo_envelope_roundtrip)
  from encrypt_then_decrypt [OF demo_gcm demo_key_length demo_draws]
  obtain e0 where e0: "encrypt (crypto demo_runtime) demo_iv demo_salt
           (stringify_tokens (json demo_runtime) demo_tokens)
           (fst (getEncryptionKey demo_runtime demo_storage)) = Inr e0"
    by blast
  with env have env0:
    "parse_envelope (json demo_runtime) (stringify_envelope (json demo_runtime) e0) = Parsed e0"
    by blast
  have readable: "fault empty_fs OpReadFile (tokenFilePath demo_storage) = None"
    by (simp add: empty_fs_def no_fault_def)
  obtain st1 fs1 where saved:
    "saveTokens demo_runtime demo_iv demo_salt demo_storage empty_fs demo_tokens = (Inr (), st1, fs1)"
    using demo_save by blast
  from save_then_load [OF demo_gcm demo_key_length demo_draws demo_json_tokens env saved readable
      refl refl]
  have "fst (loadTokens demo_runtime demo_storage fs1) = Inr (Some demo_tokens)" .
  with saved demo_gcm demo_key_length demo_draws demo_json_tokens e0 env0 readable
  show ?thesis by blast
qed

subsection \<open>The callback listener\<close>

lemma try_listen_free:
  "try_listen w p = (Inr q, pl) \<Longrightarrow> q \<notin> listeners w"
proof (induction w p rule: try_listen.induct)
  case (1 w p)
  show ?case
  proof (cases "65535 < p")
    case True
    with "1.prems" show ?thesis by (simp add: try_listen.simps [of w p])
  next
    case False
    show ?thesis
    proof (cases "listen_error w p")
      case None
      with False "1.prems" have "q = p" by (simp add: try_listen.simps [of w p])
      with None show ?thesis by (simp add: listen_error_def split: if_splits)
    next
      case (Some c)
      show ?thesis
      proof (cases "c = ''EADDRINUSE''")
        case True
        with False Some "1.prems" have "try_listen w (p + 1) = (Inr q, pl)"
          by (simp add: try_listen.simps [of w p])
        with "1.IH" [OF False Some True] show ?thesis by simp
      next
        case no: False
        with False Some "1.prems" show ?thesis by (simp add: try_listen.simps [of w p])
      qed
    qed
  qed
qed

lemma startCallbackServer_cases:
  "startCallbackServer m w = (r, m1, w1) \<Longrightarrow>
   (\<exists>p. callbackServer m1 = Some \<lparr>bound_port = Some p\<rparr> \<and> p \<notin> listeners w \<and>
        listeners w1 = insert p (listeners w) \<and> r = Inr p) \<or>
   (\<exists>e. callbackServer m1 = Some \<lparr>bound_port = None\<rparr> \<and> listeners w1 = listeners w \<and> r = Inl e)"
  by (auto simp: startCallbackServer_def split: prod.splits sum.splits dest: try_listen_free)

lemma exchange_keeps_listener:
  "exchangeCodeForTokens rt dn ivb saltb m w code = (r, m1, w1) \<Longrightarrow>
   callbackServer m1 = callbackServer m \<and> listeners w1 = listeners w"
  by (auto simp: exchangeCodeForTokens_def Let_def
      split: option.splits fetch_result.splits if_splits prod.splits sum.splits)

lemma getAuthorizationUrl_keeps_listener:
  "callbackServer (snd (getAuthorizationUrl rt rb1 rb2 m)) = callbackServer m"
  by (simp add: getAuthorizationUrl_def Let_def)

lemma completeOAuthFlow_try_listener:
  assumes "completeOAuthFlow_try rt dn rb1 rb2 ivb saltb requests m w = (r, m1, w1)"
  shows "(\<exists>p. callbackServer m1 = Some \<lparr>bound_port = Some p\<rparr> \<and> p \<notin> listeners w \<and>
              listeners w1 = insert p (listeners w)) \<or>
         (callbackServer m1 = Some \<lparr>bound_port = None\<rparr> \<and> listeners w1 = listeners w)"
proof -
  obtain r0 m0 w0 where start: "startCallbackServer m w = (r0, m0, w0)"
    by (cases "startCallbackServer m w") auto
  from startCallbackServer_cases [OF start] show ?thesis
  proof
    assume "\<exists>p. callbackServer m0 = Some \<lparr>bound_port = Some p\<rparr> \<and> p \<notin> listeners w \<and>
        listeners w0 = insert p (listeners w) \<and> r0 = Inr p"
    then obtain p where p: "callbackServer m0 = Some \<lparr>bound_port = Some p\<rparr>" "p \<notin> listeners w"
        "listeners w0 = insert p (listeners w)" "r0 = Inr p" by blast
    let ?m2 = "m0\<lparr>config := (config m0)\<lparr>redirectUri :=
                      ''http://localhost:'' @ show_nat p @ ''/oauth/callback''\<rparr>\<rparr>"
    let ?m3 = "snd (getAuthorizationUrl rt rb1 rb2 ?m2)"
    have srv3: "callbackServer ?m3 = Some \<lparr>bound_port = Some p\<rparr>"
      by (simp add: getAuthorizationUrl_keeps_listener p)
    show ?thesis
    proof (cases "waitForCallback ?m3 requests")
      case (Inl e)
      with assms start p have "m1 = ?m3" "w1 = w0"
        by (simp_all add: completeOAuthFlow_try_def case_prod_beta Let_def)
      with srv3 p show ?thesis by simp
    next
      case (Inr authCode)
      with assms start p have "exchangeCodeForTokens rt dn ivb saltb ?m3 w0 authCode = (r, m1, w1)"
        by (simp add: completeOAuthFlow_try_def case_prod_beta Let_def)
      from exchange_keeps_listener [OF this] srv3 p show ?thesis by simp
    qed
  next
    assume "\<exists>e. callbackServer m0 = Some \<lparr>bound_port = None\<rparr> \<and> listeners w0 = listeners w \<and> r0 = Inl e"
    with assms start show ?thesis
      by (auto simp: completeOAuthFlow_try_def)
  qed
qed

lemma stopCallbackServer_server: "callbackServer (fst (stopCallbackServer m w)) = None"
  by (simp add: stopCallbackServer_def split: option.splits)

lemma stopCallbackServer_bound:
  "callbackServer m = Some \<lparr>bound_port = Some p\<rparr> \<Longrightarrow>
   listeners (snd (stopCallbackServer m w)) = listeners w - {p}"
  by (simp add: stopCallbackServer_def)

lemma stopCallbackServer_unbound:
  "callbackServer m = Some \<lparr>bound_port = None\<rparr> \<Longrightarrow>
   listeners (snd (stopCallbackServer m w)) = listeners w"
  by (simp add: stopCallbackServer_def)

lemma completeOAuthFlow_finally:
  "completeOAuthFlow_try rt dn rb1 rb2 ivb saltb requests m w = (r, m1, w1) \<Longrightarrow>
   completeOAuthFlow rt dn rb1 rb2 ivb saltb requests m w =
     (r, fst (stopCallbackServer m1 w1), snd (stopCallbackServer m1 w1))"
  by (simp add: completeOAuthFlow_def case_prod_beta)

text \<open>
  Claim C9. \<open>completeOAuthFlow\<close> never ends with the callback listener running: whatever
  the outcome (the exchanged tokens, a provider error from the callback, a failed
  exchange, the timeout, or a listener that could not start), the manager holds no
  server afterwards and the process listens on exactly the ports it listened on before.
\<close>

theorem completeOAuthFlow_stops_listener:
  "callbackServer (fst (snd (completeOAuthFlow rt dn rb1 rb2 ivb saltb requests m w))) = None \<and>
   listeners (snd (snd (completeOAuthFlow rt dn rb1 rb2 ivb saltb requests m w))) = listeners w"
proof -
  obtain r m1 w1 where t: "completeOAuthFlow_try rt dn rb1 rb2 ivb saltb requests m w = (r, m1, w1)"
    by (cases "completeOAuthFlow_try rt dn rb1 rb2 ivb saltb requests m w") auto
  have fin: "completeOAuthFlow rt dn rb1 rb2 ivb saltb requests m w =
     (r, fst (stopCallbackServer m1 w1), snd (stopCallbackServer m1 w1))"
    by (rule completeOAuthFlow_finally [OF t])
  have "listeners (snd (stopCallbackServer m1 w1)) = listeners w"
    using completeOAuthFlow_try_listener [OF t]
  proof
    assume "\<exists>p. callbackServer m1 = Some \<lparr>bound_port = Some p\<rparr> \<and> p \<notin> listeners w \<and>
              listeners w1 = insert p (listeners w)"
    then obtain p where "callbackServer m1 = Some \<lparr>bound_port = Some p\<rparr>" "p \<notin> listeners w"
      "listeners w1 = insert p (listeners w)" by blast
    then show ?thesis by (simp add: stopCallbackServer_bound)
  next
    assume "callbackServer m1 = Some \<lparr>bound_port = None\<rparr> \<and> listeners w1 = listeners w"
    then show ?thesis by (simp add: stopCallbackServer_unbound)
  qed
  then show ?thesis
    by (simp add: fin stopCallbackServer_server)
qed

subsection \<open>Exchange and refresh\<close>


lemma saveTokens_error:
  "saveTokens rt ivb saltb st fs tokens = (Inl e, st1, fs1) \<Longrightarrow>
   (\<exists>c. e = SystemError c) \<or> e = CryptoError"
  by (auto simp: saveTokens_def ensureConfigDir_def fs_access_def fs_mkdir_def fs_writeFile_def
      encrypt_def Let_def case_prod_beta
      split: sum.splits option.splits node.splits if_splits)

lemma exchange_without_pkce:
  "currentPKCE m = None \<Longrightarrow>
   exchangeCodeForTokens rt dn ivb saltb m w code = (Inl NoPKCEChallenge, m, w)"
  by (simp add: exchangeCodeForTokens_def)

lemma exchange_with_pkce:
  assumes "currentPKCE m = Some pkce"
  shows "fst (exchangeCodeForTokens rt dn ivb saltb m w code) \<noteq> Inl NoPKCEChallenge"
proof -
  let ?url = "''https://oauth2.googleapis.com/token''"
  let ?params = "encode_params rt
                 [(''client_id'', clientId (config m)), (''code'', code),
                  (''code_verifier'', verifier pkce), (''grant_type'', ''authorization_code''),
                  (''redirect_uri'', redirectUri (config m))]"
  show ?thesis
  proof (cases "fetch w ?url ?params")
    case FetchFailed
    with assms show ?thesis by (simp add: exchangeCodeForTokens_def)
  next
    case (Response status body parsed)
    show ?thesis
    proof (cases "response_ok status")
      case False
      with assms Response show ?thesis by (simp add: exchangeCodeForTokens_def)
    next
      case True
      show ?thesis
      proof (cases parsed)
        case None
        with assms Response True show ?thesis by (simp add: exchangeCodeForTokens_def)
      next
        case (Some tokens)
        obtain r st1 fs1 where
          sv: "saveTokens rt ivb saltb (tokenStorage m) (files w) (updateTokenExpiry dn tokens) = (r, st1, fs1)"
          by (cases "saveTokens rt ivb saltb (tokenStorage m) (files w) (updateTokenExpiry dn tokens)") auto
        show ?thesis
        proof (cases r)
          case (Inl e)
          with sv saveTokens_error have "e \<noteq> NoPKCEChallenge" by blast
          with assms Response True Some sv Inl show ?thesis
            by (simp add: exchangeCodeForTokens_def)
        next
          case (Inr u)
          with assms Response True Some sv show ?thesis
            by (simp add: exchangeCodeForTokens_def)
        qed
      qed
    qed
  qed
qed

lemma exchange_success:
  assumes "exchangeCodeForTokens rt dn ivb saltb m w code = (Inr t, m1, w1)"
  shows "\<exists>pkce status body resp st1 fs1.
           currentPKCE m = Some pkce \<and>
           fetch w ''https://oauth2.googleapis.com/token''
             (encode_params rt
                 [(''client_id'', clientId (config m)), (''code'', code),
                  (''code_verifier'', verifier pkce), (''grant_type'', ''authorization_code''),
                  (''redirect_uri'', redirectUri (config m))]) = Response status body (Some resp) \<and>
           response_ok status \<and> t = updateTokenExpiry dn resp \<and>
           saveTokens rt ivb saltb (tokenStorage m) (files w) t = (Inr (), st1, fs1) \<and>
           m1 = m\<lparr>tokenStorage := st1, currentPKCE := None\<rparr> \<and> w1 = w\<lparr>files := fs1\<rparr>"
  using assms
  by (auto simp: exchangeCodeForTokens_def Let_def
      split: option.splits fetch_result.splits if_splits prod.splits sum.splits)

lemma exchange_ok:
  assumes "currentPKCE m = Some pkce"
    and "fetch w ''https://oauth2.googleapis.com/token''
             (encode_params rt
                 [(''client_id'', clientId (config m)), (''code'', code),
                  (''code_verifier'', verifier pkce), (''grant_type'', ''authorization_code''),
                  (''redirect_uri'', redirectUri (config m))]) = Response status body (Some resp)"
    and "response_ok status"
    and "saveTokens rt ivb saltb (tokenStorage m) (files w) (updateTokenExpiry dn resp) = (Inr (), st1, fs1)"
  shows "exchangeCodeForTokens rt dn ivb saltb m w code =
           (Inr (updateTokenExpiry dn resp), m\<lparr>tokenStorage := st1, currentPKCE := None\<rparr>,
            w\<lparr>files := fs1\<rparr>)"
  using assms by (simp add: exchangeCodeForTokens_def)

lemma refresh_success:
  assumes "refreshAccessToken rt dn ivb saltb m w = (Inr t, m1, w1)"
  shows "\<exists>stored st0 old status body resp st1 fs1.
           loadTokens rt (tokenStorage m) (files w) = (Inr (Some stored), st0) \<and>
           refresh_token stored = Some old \<and> old \<noteq> [] \<and>
           fetch w ''https://oauth2.googleapis.com/token''
             (encode_params rt
                [(''client_id'', clientId (config m)), (''refresh_token'', old),
                 (''grant_type'', ''refresh_token'')]) = Response status body (Some resp) \<and>
           response_ok status \<and>
           t = updateTokenExpiry dn (carried stored resp) \<and>
           saveTokens rt ivb saltb st0 (files w) t = (Inr (), st1, fs1) \<and>
           m1 = m\<lparr>tokenStorage := st1\<rparr> \<and> w1 = w\<lparr>files := fs1\<rparr>"
proof -
  obtain r0 st0 where ld: "loadTokens rt (tokenStorage m) (files w) = (r0, st0)"
    by (cases "loadTokens rt (tokenStorage m) (files w)") auto
  from assms ld obtain stored where r0: "r0 = Inr (Some stored)"
    by (cases r0; cases "projr r0") (auto simp: refreshAccessToken_def Let_def)
  from assms ld r0 obtain old where old: "refresh_token stored = Some old" "old \<noteq> []"
    by (cases "refresh_token stored") (auto simp: refreshAccessToken_def Let_def split: if_splits)
  let ?params = "encode_params rt
                [(''client_id'', clientId (config m)), (''refresh_token'', old),
                 (''grant_type'', ''refresh_token'')]"
  from assms ld r0 old obtain status body parsed where
    f: "fetch w ''https://oauth2.googleapis.com/token'' ?params = Response status body parsed"
    by (cases "fetch w ''https://oauth2.googleapis.com/token'' ?params")
       (auto simp: refreshAccessToken_def Let_def)
  from assms ld r0 old f have ok: "response_ok status"
    by (auto simp: refreshAccessToken_def Let_def split: if_splits)
  from assms ld r0 old f ok obtain resp where resp: "parsed = Some resp"
    by (cases parsed) (auto simp: refreshAccessToken_def Let_def)
  let ?t = "updateTokenExpiry dn (carried stored resp)"
  obtain r st1 fs1 where sv: "saveTokens rt ivb saltb st0 (files w) ?t = (r, st1, fs1)"
    by (cases "saveTokens rt ivb saltb st0 (files w) ?t") auto
  from assms ld r0 old f ok resp sv
  have "r = Inr () \<and> t = ?t \<and> m1 = m\<lparr>tokenStorage := st1\<rparr> \<and> w1 = w\<lparr>files := fs1\<rparr>"
    by (cases r) (auto simp: refreshAccessToken_def Let_def carried_def)
  with ld r0 old f ok resp sv show ?thesis by auto
qed

lemma refresh_ok:
  assumes "loadTokens rt (tokenStorage m) (files w) = (Inr (Some stored), st0)"
    and "refresh_token stored = Some old" and "old \<noteq> []"
    and "fetch w ''https://oauth2.googleapis.com/token''
             (encode_params rt
                [(''client_id'', clientId (config m)), (''refresh_token'', old),
                 (''grant_type'', ''refresh_token'')]) = Response status body (Some resp)"
    and "response_ok status"
    and "saveTokens rt ivb saltb st0 (files w) (updateTokenExpiry dn (carried stored resp)) =
           (Inr (), st1, fs1)"
  shows "refreshAccessToken rt dn ivb saltb m w =
           (Inr (updateTokenExpiry dn (carried stored resp)), m\<lparr>tokenStorage := st1\<rparr>,
            w\<lparr>files := fs1\<rparr>)"
  using assms by (simp add: refreshAccessToken_def Let_def carried_def)

subsection \<open>The store object and the demo world\<close>

lemma getEncryptionKey_configDir: "configDir (snd (getEncryptionKey rt st)) = configDir st"
  by (simp add: getEncryptionKey_def Let_def split: option.splits)

lemma getEncryptionKey_again:
  "fst (getEncryptionKey rt (snd (getEncryptionKey rt st))) = fst (getEncryptionKey rt st)"
  by (simp add: getEncryptionKey_idem)

lemma loadTokens_store:
  "snd (loadTokens rt st fs) = st \<or> snd (loadTokens rt st fs) = snd (getEncryptionKey rt st)"
  by (auto simp: loadTokens_def loadTokens_try_def case_prod_beta
      split: sum.splits parsed.splits option.splits)

lemma loadTokens_store_same:
  "tokenFilePath (snd (loadTokens rt st fs)) = tokenFilePath st"
  "configDir (snd (loadTokens rt st fs)) = configDir st"
  "fst (getEncryptionKey rt (snd (loadTokens rt st fs))) = fst (getEncryptionKey rt st)"
  using loadTokens_store [of rt st fs]
  by (auto simp: getEncryptionKey_path getEncryptionKey_configDir getEncryptionKey_again)

lemma loadTokens_try_fst:
  "fst (loadTokens_try rt st fs) =
     (case fs_readFile fs (tokenFilePath st) of
        Inl e \<Rightarrow> Inl e
      | Inr c \<Rightarrow>
          (case parse_envelope (json rt) c of
             NotJSON \<Rightarrow> Inl SyntaxError
           | WrongShape \<Rightarrow> Inl TypeError
           | Parsed env \<Rightarrow>
               (case decrypt (crypto rt) env (fst (getEncryptionKey rt st)) of
                  Inl e \<Rightarrow> Inl e
                | Inr d \<Rightarrow> (case parse_tokens (json rt) d of
                             None \<Rightarrow> Inl SyntaxError
                           | Some t \<Rightarrow> Inr t))))"
  by (simp add: loadTokens_try_def case_prod_beta split: sum.splits parsed.splits option.splits)

lemma loadTokens_same_identity:
  assumes "tokenFilePath st' = tokenFilePath st"
    and "fst (getEncryptionKey rt st') = fst (getEncryptionKey rt st)"
  shows "fst (loadTokens rt st' fs) = fst (loadTokens rt st fs)"
  unfolding loadTokens_fst loadTokens_try_fst assms ..

lemma loadTokens_again:
  "fst (loadTokens rt (snd (loadTokens rt st fs)) fs) = fst (loadTokens rt st fs)"
  by (rule loadTokens_same_identity) (simp_all add: loadTokens_store_same)

lemma saveTokens_ok:
  assumes "fault fs = no_fault"
    and "\<forall>md. entries fs (tokenFilePath st) \<noteq> Some (Dir md)"
    and "configDir st \<noteq> tokenFilePath st"
    and "encrypt (crypto rt) ivb saltb (stringify_tokens (json rt) tokens)
           (fst (getEncryptionKey rt st)) = Inr e"
  shows "\<exists>fs1. saveTokens rt ivb saltb st fs tokens = (Inr (), snd (getEncryptionKey rt st), fs1)"
  using assms
  by (auto simp: saveTokens_def ensureConfigDir_def fs_access_def fs_mkdir_def fs_writeFile_def
      no_fault_def getEncryptionKey_path case_prod_beta Let_def
      split: option.splits node.splits)

lemma demo_store:
  assumes "tokenFilePath st = tokenFilePath demo_storage"
    and "configDir st = configDir demo_storage"
    and "fst (getEncryptionKey demo_runtime st) = fst (getEncryptionKey demo_runtime demo_storage)"
    and "fault fs = no_fault"
    and "\<forall>md. entries fs (tokenFilePath demo_storage) \<noteq> Some (Dir md)"
  shows "\<exists>fs1. saveTokens demo_runtime demo_iv demo_salt st fs tokens =
           (Inr (), snd (getEncryptionKey demo_runtime st), fs1)"
proof -
  have "length (fst (getEncryptionKey demo_runtime st)) = KEY_LENGTH"
    by (simp add: assms(3) demo_key_length)
  from encrypt_then_decrypt [OF demo_gcm this demo_draws]
  obtain e where
    "encrypt (crypto demo_runtime) demo_iv demo_salt (stringify_tokens (json demo_runtime) tokens)
       (fst (getEncryptionKey demo_runtime st)) = Inr e"
    by blast
  moreover have "configDir demo_storage \<noteq> tokenFilePath demo_storage"
    by (simp add: demo_path demo_configDir)
  ultimately show ?thesis
    by (intro saveTokens_ok) (simp_all add: assms)
qed

lemma fs_storing_saved:
  "saveTokens demo_runtime demo_iv demo_salt demo_storage empty_fs stored =
     (Inr (), snd (getEncryptionKey demo_runtime demo_storage), fs_storing stored)"
proof -
  have "\<exists>fs1. saveTokens demo_runtime demo_iv demo_salt demo_storage empty_fs stored =
           (Inr (), snd (getEncryptionKey demo_runtime demo_storage), fs1)"
    by (rule demo_store) (simp_all add: empty_fs_def)
  then show ?thesis by (auto simp: fs_storing_def)
qed

lemma fs_storing_shape:
  "fault (fs_storing stored) = no_fault"
  "\<forall>md. entries (fs_storing stored) (tokenFilePath demo_storage) \<noteq> Some (Dir md)"
  using saveTokens_success [OF fs_storing_saved [of stored]]
  by (auto simp: empty_fs_def)

lemma demo_load_after_save:
  assumes "parse_tokens (json demo_runtime) (stringify_tokens (json demo_runtime) tokens) = Some tokens"
    and "tokenFilePath st = tokenFilePath demo_storage"
    and "configDir st = configDir demo_storage"
    and "fst (getEncryptionKey demo_runtime st) = fst (getEncryptionKey demo_runtime demo_storage)"
    and "fault fs = no_fault"
    and "saveTokens demo_runtime demo_iv demo_salt st fs tokens = (Inr (), st1, fs1)"
    and "tokenFilePath st' = tokenFilePath demo_storage"
    and "fst (getEncryptionKey demo_runtime st') = fst (getEncryptionKey demo_runtime demo_storage)"
  shows "fst (loadTokens demo_runtime st' fs1) = Inr (Some tokens)"
proof -
  have k: "length (fst (getEncryptionKey demo_runtime st)) = KEY_LENGTH"
    by (simp add: assms(4) demo_key_length)
  have env: "\<forall>e. encrypt (crypto demo_runtime) demo_iv demo_salt
           (stringify_tokens (json demo_runtime) tokens)
           (fst (getEncryptionKey demo_runtime st)) = Inr e \<longrightarrow>
        parse_envelope (json demo_runtime) (stringify_envelope (json demo_runtime) e) = Parsed e"
    by (blast intro: demo_envelope_roundtrip)
  have rd: "fault fs OpReadFile (tokenFilePath st) = None"
    by (simp add: assms(5) no_fault_def)
  show ?thesis
    by (rule saveTokens_then_loadTokens [OF demo_gcm k demo_draws assms(1) env assms(6) rd])
       (simp_all add: assms)
qed

lemma demo_manager_fields:
  "tokenStorage demo_manager = demo_storage" "currentPKCE demo_manager = None"
  by (simp_all add: demo_manager_def new_OAuthManager_def demo_storage_def)

lemma demo_authorized_fields:
  "tokenStorage demo_authorized = demo_storage" "currentPKCE demo_authorized \<noteq> None"
  by (simp_all add: demo_authorized_def getAuthorizationUrl_def Let_def demo_manager_fields)

subsection \<open>The pending challenge\<close>

text \<open>
  Claim C4. \<open>exchangeCodeForTokens\<close> fails with the \<open>No PKCE challenge\<close> error exactly when
  no challenge is pending. None is pending in a new manager, \<open>getAuthorizationUrl\<close> makes
  one pending, and a successful exchange clears it, so that the next exchange fails
  with that error.
\<close>

theorem exchange_needs_pending_challenge:
  "(fst (exchangeCodeForTokens rt dn ivb saltb m w code) = Inl NoPKCEChallenge \<longleftrightarrow>
      currentPKCE m = None) \<and>
   fst (exchangeCodeForTokens rt dn ivb saltb (new_OAuthManager rt cfg storage) w code) =
      Inl NoPKCEChallenge \<and>
   currentPKCE (snd (getAuthorizationUrl rt rb1 rb2 m)) \<noteq> None \<and>
   (exchangeCodeForTokens rt dn ivb saltb m w code = (Inr t, m1, w1) \<longrightarrow>
      currentPKCE m1 = None \<and>
      fst (exchangeCodeForTokens rt dn2 ivb2 saltb2 m1 w1 code2) = Inl NoPKCEChallenge)"
proof (intro conjI impI)
  show "fst (exchangeCodeForTokens rt dn ivb saltb m w code) = Inl NoPKCEChallenge \<longleftrightarrow>
      currentPKCE m = None"
  proof (cases "currentPKCE m")
    case None
    then show ?thesis by (simp add: exchange_without_pkce)
  next
    case (Some pkce)
    with exchange_with_pkce [OF Some] show ?thesis by simp
  qed
next
  show "fst (exchangeCodeForTokens rt dn ivb saltb (new_OAuthManager rt cfg storage) w code) =
      Inl NoPKCEChallenge"
    by (simp add: exchange_without_pkce new_OAuthManager_def)
next
  show "currentPKCE (snd (getAuthorizationUrl rt rb1 rb2 m)) \<noteq> None"
    by (simp add: getAuthorizationUrl_def Let_def)
next
  assume ok: "exchangeCodeForTokens rt dn ivb saltb m w code = (Inr t, m1, w1)"
  from exchange_success [OF ok] show cleared: "currentPKCE m1 = None" by auto
  then show "fst (exchangeCodeForTokens rt dn2 ivb2 saltb2 m1 w1 code2) = Inl NoPKCEChallenge"
    by (simp add: exchange_without_pkce)
qed

theorem exchange_needs_pending_challenge_witness:
  "\<exists>t m1 w1.
     exchangeCodeForTokens demo_runtime 0 demo_iv demo_salt demo_authorized
       (demo_world empty_fs demo_response) ''code'' = (Inr t, m1, w1) \<and>
     currentPKCE m1 = None \<and>
     fst (exchangeCodeForTokens demo_runtime 0 demo_iv demo_salt m1 w1 ''code'') =
       Inl NoPKCEChallenge"
proof -
  obtain pkce where p: "currentPKCE demo_authorized = Some pkce"
    using demo_authorized_fields by auto
  have "\<exists>fs1. saveTokens demo_runtime demo_iv demo_salt demo_storage empty_fs
                 (updateTokenExpiry 0 demo_response) =
           (Inr (), snd (getEncryptionKey demo_runtime demo_storage), fs1)"
    by (rule demo_store) (simp_all add: empty_fs_def)
  then obtain fs1 where
    sv: "saveTokens demo_runtime demo_iv demo_salt (tokenStorage demo_authorized)
           (files (demo_world empty_fs demo_response)) (updateTokenExpiry 0 demo_response) =
           (Inr (), snd (getEncryptionKey demo_runtime demo_storage), fs1)"
    by (auto simp: demo_authorized_fields demo_world_def)
  have f: "fetch (demo_world empty_fs demo_response) ''https://oauth2.googleapis.com/token''
             (encode_params demo_runtime
                 [(''client_id'', clientId (config demo_authorized)), (''code'', ''code''),
                  (''code_verifier'', verifier pkce), (''grant_type'', ''authorization_code''),
                  (''redirect_uri'', redirectUri (config demo_authorized))]) =
           Response 200 [] (Some demo_response)"
    by (simp add: demo_world_def)
  have ok: "response_ok 200" by (simp add: response_ok_def)
  note ex = exchange_ok [OF p f ok sv]
  from exchange_needs_pending_challenge
    [of demo_runtime 0 demo_iv demo_salt demo_authorized "demo_world empty_fs demo_response"
        "''code''" demo_config None "[]" "[]"] ex
  show ?thesis by blast
qed

subsection \<open>Runs of exchange and refresh in the demo world\<close>

lemma demo_exchange:
  "\<exists>m1 w1. exchangeCodeForTokens demo_runtime dn demo_iv demo_salt demo_authorized
       (demo_world empty_fs resp) code = (Inr (updateTokenExpiry dn resp), m1, w1)"
proof -
  obtain pkce where p: "currentPKCE demo_authorized = Some pkce"
    using demo_authorized_fields by auto
  have "\<exists>fs1. saveTokens demo_runtime demo_iv demo_salt demo_storage empty_fs
                 (updateTokenExpiry dn resp) =
           (Inr (), snd (getEncryptionKey demo_runtime demo_storage), fs1)"
    by (rule demo_store) (simp_all add: empty_fs_def)
  then obtain fs1 where
    sv: "saveTokens demo_runtime demo_iv demo_salt (tokenStorage demo_authorized)
           (files (demo_world empty_fs resp)) (updateTokenExpiry dn resp) =
           (Inr (), snd (getEncryptionKey demo_runtime demo_storage), fs1)"
    by (auto simp: demo_authorized_fields demo_world_def)
  have f: "fetch (demo_world empty_fs resp) ''https://oauth2.googleapis.com/token''
             (encode_params demo_runtime
                 [(''client_id'', clientId (config demo_authorized)), (''code'', code),
                  (''code_verifier'', verifier pkce), (''grant_type'', ''authorization_code''),
                  (''redirect_uri'', redirectUri (config demo_authorized))]) =
           Response 200 [] (Some resp)"
    by (simp add: demo_world_def)
  have ok: "response_ok 200" by (simp add: response_ok_def)
  from exchange_ok [OF p f ok sv] show ?thesis by blast
qed

lemma demo_stored_load:
  assumes "parse_tokens (json demo_runtime) (stringify_tokens (json demo_runtime) stored) = Some stored"
    and "tokenFilePath st = tokenFilePath demo_storage"
    and "fst (getEncryptionKey demo_runtime st) = fst (getEncryptionKey demo_runtime demo_storage)"
  shows "fst (loadTokens demo_runtime st (fs_storing stored)) = Inr (Some stored)"
  by (rule demo_load_after_save [OF assms(1) refl refl refl _ fs_storing_saved assms(2,3)])
     (simp add: empty_fs_def)

lemma demo_refresh:
  assumes js: "parse_tokens (json demo_runtime) (stringify_tokens (json demo_runtime) stored) = Some stored"
    and tok: "refresh_token stored = Some old" "old \<noteq> []"
    and st: "tokenFilePath (tokenStorage m) = tokenFilePath demo_storage"
      "configDir (tokenStorage m) = configDir demo_storage"
      "fst (getEncryptionKey demo_runtime (tokenStorage m)) =
         fst (getEncryptionKey demo_runtime demo_storage)"
  shows "\<exists>st0 m1 fs1.
           loadTokens demo_runtime (tokenStorage m) (fs_storing stored) = (Inr (Some stored), st0) \<and>
           refreshAccessToken demo_runtime dn demo_iv demo_salt m
             (demo_world (fs_storing stored) resp) =
             (Inr (updateTokenExpiry dn (carried stored resp)), m1,
              (demo_world (fs_storing stored) resp)\<lparr>files := fs1\<rparr>) \<and>
           saveTokens demo_runtime demo_iv demo_salt st0 (fs_storing stored)
             (updateTokenExpiry dn (carried stored resp)) = (Inr (), tokenStorage m1, fs1)"
proof -
  let ?w = "demo_world (fs_storing stored) resp"
  let ?st0 = "snd (loadTokens demo_runtime (tokenStorage m) (fs_storing stored))"
  have fw: "files ?w = fs_storing stored" by (simp add: demo_world_def)
  have ld: "loadTokens demo_runtime (tokenStorage m) (files ?w) = (Inr (Some stored), ?st0)"
    using demo_stored_load [OF js st(1) st(3)] by (simp add: fw prod_eq_iff)
  have "\<exists>fs1. saveTokens demo_runtime demo_iv demo_salt ?st0 (fs_storing stored)
                 (updateTokenExpiry dn (carried stored resp)) =
           (Inr (), snd (getEncryptionKey demo_runtime ?st0), fs1)"
    by (rule demo_store) (simp_all add: loadTokens_store_same st fs_storing_shape)
  then obtain fs1 where
    sv: "saveTokens demo_runtime demo_iv demo_salt ?st0 (files ?w)
           (updateTokenExpiry dn (carried stored resp)) =
           (Inr (), snd (getEncryptionKey demo_runtime ?st0), fs1)"
    by (auto simp: fw)
  have f: "fetch ?w ''https://oauth2.googleapis.com/token''
             (encode_params demo_runtime
                [(''client_id'', clientId (config m)), (''refresh_token'', old),
                 (''grant_type'', ''refresh_token'')]) = Response 200 [] (Some resp)"
    by (simp add: demo_world_def)
  have ok: "response_ok 200" by (simp add: response_ok_def)
  from refresh_ok [OF ld tok f ok sv] ld sv show ?thesis
    by (auto simp: fw)
qed

subsection \<open>The refresh token across a refresh\<close>



subsection \<open>The expiry timestamp of stored records\<close>

lemma updateTokenExpiry_zero_lifetime:
  "expires_in r = Some 0 \<Longrightarrow> updateTokenExpiry dn r = r"
  by (simp add: updateTokenExpiry_def)

lemma carried_expiry:
  "expires_in (carried stored resp) = expires_in resp"
  "expires_at (carried stored resp) = expires_at resp"
  by (simp_all add: carried_def)

text \<open>
  Claim C7 fails where it says that a record without \<open>expires_in\<close> has no \<open>expires_at\<close>
  and that \<open>expires_at\<close> is always derived when the record is stored: a provider response
  without \<open>expires_in\<close> that carries its own \<open>expires_at\<close> passes through
  \<open>updateTokenExpiry\<close> unchanged, and \<open>exchangeCodeForTokens\<close> stores and returns it so.
\<close>

theorem stored_expiry_from_response:
  "expires_in (updateTokenExpiry 1700000000000 stale_response) = None \<and>
   expires_at (updateTokenExpiry 1700000000000 stale_response) = Some 5 \<and>
   fst (exchangeCodeForTokens demo_runtime 1700000000000 demo_iv demo_salt demo_authorized
          (demo_world empty_fs stale_response) ''code'') = Inr stale_response"
proof -
  have u: "updateTokenExpiry 1700000000000 stale_response = stale_response"
    by (simp add: updateTokenExpiry_def stale_response_def)
  from demo_exchange [of 1700000000000 stale_response "''code''"]
  have "fst (exchangeCodeForTokens demo_runtime 1700000000000 demo_iv demo_salt demo_authorized
          (demo_world empty_fs stale_response) ''code'') = Inr stale_response"
    by (auto simp: u)
  then show ?thesis
    by (simp add: u) (simp add: stale_response_def)
qed

text \<open>
  Claim C7, amended. \<open>updateTokenExpiry\<close> is a function of the clock and its argument: if
  \<open>expires_in\<close> is present and not zero, the result is the argument with \<open>expires_at\<close> set
  to the current time in seconds plus \<open>expires_in\<close>, all other fields unchanged; if
  \<open>expires_in\<close> is absent, the result is the argument unchanged, with whatever
  \<open>expires_at\<close> it carries. The record that a successful exchange returns and saves is
  \<open>updateTokenExpiry\<close> of the provider's response; the record that a successful refresh
  returns and saves is \<open>updateTokenExpiry\<close> of the response with the refresh token
  carried forward, so its \<open>expires_in\<close> and \<open>expires_at\<close> never come from the record
  stored before.
\<close>

theorem updateTokenExpiry_at_store:
  "(\<forall>n. expires_in r = Some n \<and> n \<noteq> 0 \<longrightarrow>
        updateTokenExpiry dn r = r\<lparr>expires_at := Some (dn div 1000 + n)\<rparr>) \<and>
   (expires_in r = None \<longrightarrow> updateTokenExpiry dn r = r) \<and>
   (exchangeCodeForTokens rt dn ivb saltb m w code = (Inr t, m1, w1) \<longrightarrow>
      (\<exists>pkce status body resp st1.
         currentPKCE m = Some pkce \<and>
         fetch w ''https://oauth2.googleapis.com/token''
           (encode_params rt
              [(''client_id'', clientId (config m)), (''code'', code),
               (''code_verifier'', verifier pkce), (''grant_type'', ''authorization_code''),
               (''redirect_uri'', redirectUri (config m))]) = Response status body (Some resp) \<and>
         t = updateTokenExpiry dn resp \<and>
         saveTokens rt ivb saltb (tokenStorage m) (files w) t = (Inr (), st1, files w1))) \<and>
   (refreshAccessToken rt dn ivb saltb m w = (Inr t, m1, w1) \<longrightarrow>
      (\<exists>stored st0 old status body resp st1.
         loadTokens rt (tokenStorage m) (files w) = (Inr (Some stored), st0) \<and>
         refresh_token stored = Some old \<and>
         fetch w ''https://oauth2.googleapis.com/token''
           (encode_params rt
              [(''client_id'', clientId (config m)), (''refresh_token'', old),
               (''grant_type'', ''refresh_token'')]) = Response status body (Some resp) \<and>
         t = updateTokenExpiry dn (carried stored resp) \<and>
         expires_in (carried stored resp) = expires_in resp \<and>
         expires_at (carried stored resp) = expires_at resp \<and>
         saveTokens rt ivb saltb st0 (files w) t = (Inr (), st1, files w1)))"
proof (intro conjI impI allI)
  fix n assume "expires_in r = Some n \<and> n \<noteq> 0"
  then show "updateTokenExpiry dn r = r\<lparr>expires_at := Some (dn div 1000 + n)\<rparr>"
    by (simp add: updateTokenExpiry_def)
next
  assume "expires_in r = None"
  then show "updateTokenExpiry dn r = r" by (simp add: updateTokenExpiry_def)
next
  assume ex: "exchangeCodeForTokens rt dn ivb saltb m w code = (Inr t, m1, w1)"
  from exchange_success [OF ex] obtain pkce status body resp st1 fs1 where
    p: "currentPKCE m = Some pkce" and
    f: "fetch w ''https://oauth2.googleapis.com/token''
           (encode_params rt
              [(''client_id'', clientId (config m)), (''code'', code),
               (''code_verifier'', verifier pkce), (''grant_type'', ''authorization_code''),
               (''redirect_uri'', redirectUri (config m))]) = Response status body (Some resp)" and
    t: "t = updateTokenExpiry dn resp" and
    sv: "saveTokens rt ivb saltb (tokenStorage m) (files w) t = (Inr (), st1, fs1)" and
    w1: "w1 = w\<lparr>files := fs1\<rparr>"
    by blast
  from sv w1 have "saveTokens rt ivb saltb (tokenStorage m) (files w) t = (Inr (), st1, files w1)"
    by simp
  with p f t show "\<exists>pkce status body resp st1.
         currentPKCE m = Some pkce \<and>
         fetch w ''https://oauth2.googleapis.com/token''
           (encode_params rt
              [(''client_id'', clientId (config m)), (''code'', code),
               (''code_verifier'', verifier pkce), (''grant_type'', ''authorization_code''),
               (''redirect_uri'', redirectUri (config m))]) = Response status body (Some resp) \<and>
         t = updateTokenExpiry dn resp \<and>
         saveTokens rt ivb saltb (tokenStorage m) (files w) t = (Inr (), st1, files w1)"
    by blast
next
  assume rf: "refreshAccessToken rt dn ivb saltb m w = (Inr t, m1, w1)"
  from refresh_success [OF rf] obtain stored st0 old status body resp st1 fs1 where
    ld: "loadTokens rt (tokenStorage m) (files w) = (Inr (Some stored), st0)" and
    old: "refresh_token stored = Some old" and
    f: "fetch w ''https://oauth2.googleapis.com/token''
           (encode_params rt
              [(''client_id'', clientId (config m)), (''refresh_token'', old),
               (''grant_type'', ''refresh_token'')]) = Response status body (Some resp)" and
    t: "t = updateTokenExpiry dn (carried stored resp)" and
    sv: "saveTokens rt ivb saltb st0 (files w) t = (Inr (), st1, fs1)" and
    w1: "w1 = w\<lparr>files := fs1\<rparr>"
    by blast
  from sv w1 have "saveTokens rt ivb saltb st0 (files w) t = (Inr (), st1, files w1)"
    by simp
  with ld old f t carried_expiry [of stored resp]
  show "\<exists>stored st0 old status body resp st1.
         loadTokens rt (tokenStorage m) (files w) = (Inr (Some stored), st0) \<and>
         refresh_token stored = Some old \<and>
         fetch w ''https://oauth2.googleapis.com/token''
           (encode_params rt
              [(''client_id'', clientId (config m)), (''refresh_token'', old),
               (''grant_type'', ''refresh_token'')]) = Response status body (Some resp) \<and>
         t = updateTokenExpiry dn (carried stored resp) \<and>
         expires_in (carried stored resp) = expires_in resp \<and>
         expires_at (carried stored resp) = expires_at resp \<and>
         saveTokens rt ivb saltb st0 (files w) t = (Inr (), st1, files w1)"
    by blast
qed

theorem updateTokenExpiry_at_store_witness:
  "(expires_in demo_response = Some 3600 \<and> (3600::int) \<noteq> 0 \<and>
    updateTokenExpiry 1700000000000 demo_response =
      demo_response\<lparr>expires_at := Some (1700000000000 div 1000 + 3600)\<rparr>) \<and>
   (expires_in stale_response = None \<and>
    updateTokenExpiry 1700000000000 stale_response = stale_response) \<and>
   (\<exists>t m1 w1.
      exchangeCodeForTokens demo_runtime 1700000000000 demo_iv demo_salt demo_authorized
        (demo_world empty_fs demo_response) ''code'' = (Inr t, m1, w1) \<and>
      t = updateTokenExpiry 1700000000000 demo_response) \<and>
   (\<exists>t m1 w1.
      refreshAccessToken demo_runtime 1700000000000 demo_iv demo_salt demo_manager
        (demo_world (fs_storing demo_tokens) demo_response) = (Inr t, m1, w1) \<and>
      expires_at t = Some (1700000000000 div 1000 + 3600))"
proof (intro conjI)
  have a: "expires_in demo_response = Some 3600 \<and> (3600::int) \<noteq> 0"
    by (simp add: demo_response_def)
  then show "expires_in demo_response = Some 3600" "(3600::int) \<noteq> 0" by simp_all
  from updateTokenExpiry_at_store [of demo_response 1700000000000] a
  show "updateTokenExpiry 1700000000000 demo_response =
      demo_response\<lparr>expires_at := Some (1700000000000 div 1000 + 3600)\<rparr>"
    by blast
next
  show b: "expires_in stale_response = None" by (simp add: stale_response_def)
  from updateTokenExpiry_at_store [of stale_response 1700000000000] b
  show "updateTokenExpiry 1700000000000 stale_response = stale_response"
    by blast
next
  from demo_exchange [of 1700000000000 demo_response "''code''"] obtain m1 w1 where
    ex: "exchangeCodeForTokens demo_runtime 1700000000000 demo_iv demo_salt demo_authorized
        (demo_world empty_fs demo_response) ''code'' =
        (Inr (updateTokenExpiry 1700000000000 demo_response), m1, w1)"
    by blast
  from updateTokenExpiry_at_store
    [where rt = demo_runtime and dn = 1700000000000 and ivb = demo_iv and saltb = demo_salt
       and m = demo_authorized and w = "demo_world empty_fs demo_response" and code = "''code''"
       and t = "updateTokenExpiry 1700000000000 demo_response" and ?m1.0 = m1 and ?w1.0 = w1] ex
  show "\<exists>t m1 w1.
      exchangeCodeForTokens demo_runtime 1700000000000 demo_iv demo_salt demo_authorized
        (demo_world empty_fs demo_response) ''code'' = (Inr t, m1, w1) \<and>
      t = updateTokenExpiry 1700000000000 demo_response"
    by blast
next
  have tok: "refresh_token demo_tokens = Some ''rt1''" "''rt1'' \<noteq> []"
    by (simp_all add: demo_tokens_def)
  from demo_refresh [OF demo_json_tokens tok, of demo_manager 1700000000000 demo_response]
  obtain m1 w1 where
    rf: "refreshAccessToken demo_runtime 1700000000000 demo_iv demo_salt demo_manager
           (demo_world (fs_storing demo_tokens) demo_response) =
           (Inr (updateTokenExpiry 1700000000000 (carried demo_tokens demo_response)), m1, w1)"
    by (auto simp: demo_manager_fields)
  have e: "expires_at (updateTokenExpiry 1700000000000 (carried demo_tokens demo_response)) =
        Some (1700000000000 div 1000 + 3600)"
    by (simp add: updateTokenExpiry_def carried_def demo_response_def demo_tokens_def)
  from updateTokenExpiry_at_store
    [where rt = demo_runtime and dn = 1700000000000 and ivb = demo_iv and saltb = demo_salt
       and m = demo_manager and w = "demo_world (fs_storing demo_tokens) demo_response"
       and t = "updateTokenExpiry 1700000000000 (carried demo_tokens demo_response)"
       and ?m1.0 = m1 and ?w1.0 = w1] rf e
  show "\<exists>t m1 w1.
      refreshAccessToken demo_runtime 1700000000000 demo_iv demo_salt demo_manager
        (demo_world (fs_storing demo_tokens) demo_response) = (Inr t, m1, w1) \<and>
      expires_at t = Some (1700000000000 div 1000 + 3600)"
    by blast
qed

subsection \<open>Getting a valid access token\<close>

lemma getValidAccessToken_valid:
  assumes ld: "loadTokens rt (tokenStorage m) (files w) = (Inr (Some tokens), st0)"
    and valid: "\<not> isTokenExpired now_check tokens"
  shows "fst (getValidAccessToken rt now_check now_refresh ivb saltb m w) = Inr (access_token tokens)"
    and "snd (snd (getValidAccessToken rt now_check now_refresh ivb saltb m w)) = w"
proof -
  from ld have st0: "st0 = snd (loadTokens rt (tokenStorage m) (files w))" by simp
  have "fst (loadTokens rt st0 (files w)) = Inr (Some tokens)"
    unfolding st0 loadTokens_again using ld by simp
  then obtain st2 where ld2: "loadTokens rt st0 (files w) = (Inr (Some tokens), st2)"
    by (cases "loadTokens rt st0 (files w)") auto
  from ld valid ld2
  have "getValidAccessToken rt now_check now_refresh ivb saltb m w =
          (Inr (access_token tokens), m\<lparr>tokenStorage := st2\<rparr>, w)"
    by (simp add: getValidAccessToken_def isTokenValid_def)
  then show "fst (getValidAccessToken rt now_check now_refresh ivb saltb m w) = Inr (access_token tokens)"
    and "snd (snd (getValidAccessToken rt now_check now_refresh ivb saltb m w)) = w"
    by simp_all
qed

lemma getValidAccessToken_refresh:
  assumes "loadTokens rt (tokenStorage m) (files w) = (Inr None, st0) \<or>
           loadTokens rt (tokenStorage m) (files w) = (Inr (Some tokens), st0) \<and>
           isTokenExpired now_check tokens"
  shows "getValidAccessToken rt now_check now_refresh ivb saltb m w =
           (case refreshAccessToken rt now_refresh ivb saltb (m\<lparr>tokenStorage := st0\<rparr>) w of
              (Inr refreshed, m2, w2) \<Rightarrow> (Inr (access_token refreshed), m2, w2)
            | (Inl e, m2, w2) \<Rightarrow> (Inl RefreshFailedReauth, m2, w2))"
  using assms by (auto simp: getValidAccessToken_def isTokenValid_def)

lemma getValidAccessToken_load_error:
  assumes "loadTokens rt (tokenStorage m) (files w) = (Inl e, st0)"
  shows "getValidAccessToken rt now_check now_refresh ivb saltb m w =
           (Inl e, m\<lparr>tokenStorage := st0\<rparr>, w)"
  using assms by (simp add: getValidAccessToken_def isTokenValid_def)

lemma getValidAccessToken_origin:
  assumes "fst (getValidAccessToken rt now_check now_refresh ivb saltb m w) = Inr tok"
  shows "(\<exists>tokens. fst (loadTokens rt (tokenStorage m) (files w)) = Inr (Some tokens) \<and>
             \<not> isTokenExpired now_check tokens \<and> tok = access_token tokens) \<or>
         (\<exists>refreshed.
             fst (refreshAccessToken rt now_refresh ivb saltb
                    (m\<lparr>tokenStorage := snd (loadTokens rt (tokenStorage m) (files w))\<rparr>) w) =
               Inr refreshed \<and>
             tok = access_token refreshed)"
proof -
  obtain r st0 where ld: "loadTokens rt (tokenStorage m) (files w) = (r, st0)"
    by (cases "loadTokens rt (tokenStorage m) (files w)") auto
  show ?thesis
  proof (cases r)
    case (Inl e)
    with ld assms getValidAccessToken_load_error [of rt m w e st0] show ?thesis by simp
  next
    case (Inr loaded)
    show ?thesis
    proof (cases "\<exists>tokens. loaded = Some tokens \<and> \<not> isTokenExpired now_check tokens")
      case True
      then obtain tokens where t: "loaded = Some tokens" "\<not> isTokenExpired now_check tokens"
        by blast
      with ld Inr have "loadTokens rt (tokenStorage m) (files w) = (Inr (Some tokens), st0)" by simp
      from getValidAccessToken_valid(1) [OF this t(2), of now_refresh ivb saltb] assms ld Inr t
      show ?thesis by simp
    next
      case False
      with ld Inr
      have "loadTokens rt (tokenStorage m) (files w) = (Inr None, st0) \<or>
           loadTokens rt (tokenStorage m) (files w) = (Inr (Some (the loaded)), st0) \<and>
           isTokenExpired now_check (the loaded)"
        by (cases loaded) auto
      from getValidAccessToken_refresh [OF this, of now_refresh ivb saltb] assms ld
      show ?thesis
        by (auto split: prod.splits sum.splits)
    qed
  qed
qed

lemma demo_json_expired:
  "parse_tokens (json demo_runtime) (stringify_tokens (json demo_runtime) expired_tokens) =
     Some expired_tokens"
  by (simp add: demo_runtime_def demo_json_def expired_tokens_def show_opt_str_def show_opt_num_def
      read_opt_str_def read_opt_num_def read_nat_def show_nat.simps)

lemma demo_json_short:
  "parse_tokens (json demo_runtime) (stringify_tokens (json demo_runtime) short_refreshed) =
     Some short_refreshed"
  by (simp add: demo_runtime_def demo_json_def short_refreshed_def show_opt_str_def
      show_opt_num_def read_opt_str_def read_opt_num_def read_nat_def show_nat.simps)

lemma short_refreshed_made:
  "updateTokenExpiry 2000000 (carried expired_tokens short_response) = short_refreshed"
  by (simp add: updateTokenExpiry_def carried_def expired_tokens_def short_response_def
      short_refreshed_def)

text \<open>
  Claim C5 fails in its last part: when the provider answers a refresh with a lifetime of
  at most 300 seconds, \<open>getValidAccessToken\<close> returns the access token of the refreshed
  record, which is the record now stored and which the expiry check classifies as
  expired.
\<close>

theorem getValidAccessToken_short_lifetime:
  "isTokenExpired 2000000 expired_tokens \<and>
   fst (loadTokens demo_runtime demo_storage (fs_storing expired_tokens)) =
     Inr (Some expired_tokens) \<and>
   fst (getValidAccessToken demo_runtime 2000000 2000000 demo_iv demo_salt demo_manager
          (demo_world (fs_storing expired_tokens) short_response)) =
     Inr (access_token short_refreshed) \<and>
   fst (loadTokens demo_runtime demo_storage
          (files (snd (snd (getValidAccessToken demo_runtime 2000000 2000000 demo_iv demo_salt
             demo_manager (demo_world (fs_storing expired_tokens) short_response)))))) =
     Inr (Some short_refreshed) \<and>
   isTokenExpired 2000000 short_refreshed"
proof -
  let ?w = "demo_world (fs_storing expired_tokens) short_response"
  let ?st0 = "snd (loadTokens demo_runtime (tokenStorage demo_manager) (files ?w))"
  let ?m0 = "demo_manager\<lparr>tokenStorage := ?st0\<rparr>"
  have fw: "files ?w = fs_storing expired_tokens" by (simp add: demo_world_def)
  have exp1: "isTokenExpired 2000000 expired_tokens"
    by (simp add: isTokenExpired_def expired_tokens_def)
  have exp2: "isTokenExpired 2000000 short_refreshed"
    by (simp add: isTokenExpired_def short_refreshed_def)
  have ld: "fst (loadTokens demo_runtime demo_storage (fs_storing expired_tokens)) =
     Inr (Some expired_tokens)"
    by (rule demo_stored_load [OF demo_json_expired refl refl])
  then have ld0: "loadTokens demo_runtime (tokenStorage demo_manager) (files ?w) =
     (Inr (Some expired_tokens), ?st0)"
    by (simp add: fw demo_manager_fields prod_eq_iff)
  have tok: "refresh_token expired_tokens = Some ''rt1''" "''rt1'' \<noteq> []"
    by (simp_all add: expired_tokens_def)
  have id: "tokenFilePath (tokenStorage ?m0) = tokenFilePath demo_storage"
    "configDir (tokenStorage ?m0) = configDir demo_storage"
    "fst (getEncryptionKey demo_runtime (tokenStorage ?m0)) =
       fst (getEncryptionKey demo_runtime demo_storage)"
    by (simp_all add: loadTokens_store_same demo_manager_fields)
  from demo_refresh [OF demo_json_expired tok id, of 2000000 short_response]
  obtain st1 m1 fs1 where
    rf: "refreshAccessToken demo_runtime 2000000 demo_iv demo_salt ?m0 ?w =
           (Inr short_refreshed, m1, ?w\<lparr>files := fs1\<rparr>)" and
    sv: "saveTokens demo_runtime demo_iv demo_salt st1 (fs_storing expired_tokens)
           short_refreshed = (Inr (), tokenStorage m1, fs1)" and
    st1: "st1 = snd (loadTokens demo_runtime (tokenStorage ?m0) (fs_storing expired_tokens))"
    by (auto simp: short_refreshed_made)
  from getValidAccessToken_refresh [of demo_runtime demo_manager ?w ?st0 expired_tokens 2000000
      2000000 demo_iv demo_salt] ld0 exp1 rf
  have gva: "getValidAccessToken demo_runtime 2000000 2000000 demo_iv demo_salt demo_manager ?w =
           (Inr (access_token short_refreshed), m1, ?w\<lparr>files := fs1\<rparr>)"
    by simp
  have "fst (loadTokens demo_runtime demo_storage fs1) = Inr (Some short_refreshed)"
    by (rule demo_load_after_save [OF demo_json_short _ _ _ _ sv])
       (simp_all add: st1 loadTokens_store_same demo_manager_fields fs_storing_shape)
  with gva exp1 exp2 ld show ?thesis
    by simp
qed

text \<open>
  Claim C5, amended. When the stored record loads and is currently valid,
  \<open>getValidAccessToken\<close> returns its access token and changes nothing outside. When there
  is no stored record, or the stored record is expired, it calls \<open>refreshAccessToken\<close>
  once: it returns the access token of the refreshed record if the refresh succeeds
  (without an expiry check of that record), and fails with the re-authentication
  error if the refresh fails. When loading the stored record fails, that error is the
  outcome and no refresh is attempted. So a returned token is either the token of a
  stored record that the expiry check classified as valid or the token of the record a
  refresh has just produced, never the token of a stored record classified as expired.
\<close>

theorem getValidAccessToken_outcomes:
  "(loadTokens rt (tokenStorage m) (files w) = (Inr (Some tokens), st0) \<and>
    \<not> isTokenExpired now_check tokens \<longrightarrow>
      fst (getValidAccessToken rt now_check now_refresh ivb saltb m w) = Inr (access_token tokens) \<and>
      snd (snd (getValidAccessToken rt now_check now_refresh ivb saltb m w)) = w) \<and>
   (loadTokens rt (tokenStorage m) (files w) = (Inr None, st0) \<or>
    loadTokens rt (tokenStorage m) (files w) = (Inr (Some tokens), st0) \<and>
    isTokenExpired now_check tokens \<longrightarrow>
      getValidAccessToken rt now_check now_refresh ivb saltb m w =
        (case refreshAccessToken rt now_refresh ivb saltb (m\<lparr>tokenStorage := st0\<rparr>) w of
           (Inr refreshed, m2, w2) \<Rightarrow> (Inr (access_token refreshed), m2, w2)
         | (Inl e, m2, w2) \<Rightarrow> (Inl RefreshFailedReauth, m2, w2))) \<and>
   (loadTokens rt (tokenStorage m) (files w) = (Inl err, st0) \<longrightarrow>
      getValidAccessToken rt now_check now_refresh ivb saltb m w =
        (Inl err, m\<lparr>tokenStorage := st0\<rparr>, w)) \<and>
   (fst (getValidAccessToken rt now_check now_refresh ivb saltb m w) = Inr tok \<longrightarrow>
      (\<exists>valid. fst (loadTokens rt (tokenStorage m) (files w)) = Inr (Some valid) \<and>
           \<not> isTokenExpired now_check valid \<and> tok = access_token valid) \<or>
      (\<exists>refreshed.
           fst (refreshAccessToken rt now_refresh ivb saltb
                  (m\<lparr>tokenStorage := snd (loadTokens rt (tokenStorage m) (files w))\<rparr>) w) =
             Inr refreshed \<and>
           tok = access_token refreshed))"
  using getValidAccessToken_valid [of rt m w tokens st0 now_check now_refresh ivb saltb]
    getValidAccessToken_refresh [of rt m w st0 tokens now_check now_refresh ivb saltb]
    getValidAccessToken_load_error [of rt m w err st0 now_check now_refresh ivb saltb]
    getValidAccessToken_origin [of rt now_check now_refresh ivb saltb m w tok]
  by blast

theorem getValidAccessToken_outcomes_witness:
  "(\<exists>st0. loadTokens demo_runtime (tokenStorage demo_manager)
            (files (demo_world (fs_storing demo_tokens) demo_response)) =
            (Inr (Some demo_tokens), st0) \<and>
          \<not> isTokenExpired 0 demo_tokens \<and>
          fst (getValidAccessToken demo_runtime 0 0 demo_iv demo_salt demo_manager
                 (demo_world (fs_storing demo_tokens) demo_response)) = Inr ''at1'') \<and>
   (\<exists>st0. loadTokens demo_runtime (tokenStorage demo_manager)
            (files (demo_world empty_fs demo_response)) = (Inr None, st0) \<and>
          fst (getValidAccessToken demo_runtime 0 0 demo_iv demo_salt demo_manager
                 (demo_world empty_fs demo_response)) = Inl RefreshFailedReauth) \<and>
   (\<exists>st0. loadTokens demo_runtime (tokenStorage demo_manager)
            (files (demo_world (fs_with_file ''garbage'') demo_response)) =
            (Inl (FailedToLoadTokens SyntaxError), st0) \<and>
          fst (getValidAccessToken demo_runtime 0 0 demo_iv demo_salt demo_manager
                 (demo_world (fs_with_file ''garbage'') demo_response)) =
            Inl (FailedToLoadTokens SyntaxError))"
proof (intro conjI)
  let ?w = "demo_world (fs_storing demo_tokens) demo_response"
  let ?st0 = "snd (loadTokens demo_runtime (tokenStorage demo_manager) (files ?w))"
  have "fst (loadTokens demo_runtime demo_storage (fs_storing demo_tokens)) = Inr (Some demo_tokens)"
    by (rule demo_stored_load [OF demo_json_tokens refl refl])
  then have ld: "loadTokens demo_runtime (tokenStorage demo_manager) (files ?w) =
     (Inr (Some demo_tokens), ?st0)"
    by (simp add: demo_world_def demo_manager_fields prod_eq_iff)
  have v: "\<not> isTokenExpired 0 demo_tokens"
    by (simp add: isTokenExpired_def demo_tokens_def)
  from getValidAccessToken_outcomes
    [where rt = demo_runtime and m = demo_manager and w = ?w and tokens = demo_tokens
       and ?st0.0 = ?st0 and now_check = 0 and now_refresh = 0 and ivb = demo_iv
       and saltb = demo_salt] ld v
  have "fst (getValidAccessToken demo_runtime 0 0 demo_iv demo_salt demo_manager ?w) =
          Inr (access_token demo_tokens)"
    by blast
  then have "fst (getValidAccessToken demo_runtime 0 0 demo_iv demo_salt demo_manager ?w) = Inr ''at1''"
    by (simp add: demo_tokens_def)
  with ld v show "\<exists>st0. loadTokens demo_runtime (tokenStorage demo_manager) (files ?w) =
            (Inr (Some demo_tokens), st0) \<and>
          \<not> isTokenExpired 0 demo_tokens \<and>
          fst (getValidAccessToken demo_runtime 0 0 demo_iv demo_salt demo_manager ?w) = Inr ''at1''"
    by blast
next
  let ?w = "demo_world empty_fs demo_response"
  have ld: "loadTokens demo_runtime (tokenStorage demo_manager) (files ?w) = (Inr None, demo_storage)"
    by (simp add: demo_world_def demo_manager_fields loadTokens_def loadTokens_try_missing
        empty_fs_def)
  then have rf: "fst (refreshAccessToken demo_runtime 0 demo_iv demo_salt
                   (demo_manager\<lparr>tokenStorage := demo_storage\<rparr>) ?w) = Inl NoRefreshToken"
    by (simp add: refreshAccessToken_def demo_manager_fields)
  from getValidAccessToken_outcomes
    [where rt = demo_runtime and m = demo_manager and w = ?w and ?st0.0 = demo_storage
       and now_check = 0 and now_refresh = 0 and ivb = demo_iv and saltb = demo_salt] ld
  have "getValidAccessToken demo_runtime 0 0 demo_iv demo_salt demo_manager ?w =
        (case refreshAccessToken demo_runtime 0 demo_iv demo_salt
                (demo_manager\<lparr>tokenStorage := demo_storage\<rparr>) ?w of
           (Inr refreshed, m2, w2) \<Rightarrow> (Inr (access_token refreshed), m2, w2)
         | (Inl e, m2, w2) \<Rightarrow> (Inl RefreshFailedReauth, m2, w2))"
    by blast
  with rf have "fst (getValidAccessToken demo_runtime 0 0 demo_iv demo_salt demo_manager ?w) =
      Inl RefreshFailedReauth"
    by (simp add: case_prod_beta split: sum.splits)
  with ld show "\<exists>st0. loadTokens demo_runtime (tokenStorage demo_manager) (files ?w) =
            (Inr None, st0) \<and>
          fst (getValidAccessToken demo_runtime 0 0 demo_iv demo_salt demo_manager ?w) =
            Inl RefreshFailedReauth"
    by blast
next
  let ?w = "demo_world (fs_with_file ''garbage'') demo_response"
  have ld: "loadTokens demo_runtime (tokenStorage demo_manager) (files ?w) =
      (Inl (FailedToLoadTokens SyntaxError), demo_storage)"
    by (simp add: demo_world_def demo_manager_fields loadTokens_def loadTokens_try_def
        fs_readFile_def fs_with_file_def no_fault_def demo_parse_garbage)
  from getValidAccessToken_outcomes
    [where rt = demo_runtime and m = demo_manager and w = ?w and ?st0.0 = demo_storage
       and err = "FailedToLoadTokens SyntaxError"
       and now_check = 0 and now_refresh = 0 and ivb = demo_iv and saltb = demo_salt] ld
  have "fst (getValidAccessToken demo_runtime 0 0 demo_iv demo_salt demo_manager ?w) =
      Inl (FailedToLoadTokens SyntaxError)"
    by simp
  with ld show "\<exists>st0. loadTokens demo_runtime (tokenStorage demo_manager) (files ?w) =
            (Inl (FailedToLoadTokens SyntaxError), st0) \<and>
          fst (getValidAccessToken demo_runtime 0 0 demo_iv demo_salt demo_manager ?w) =
            Inl (FailedToLoadTokens SyntaxError)"
    by blast
qed

end
